theory Spec2Isabelle
  imports Main "HOL-Library.Multiset"
begin

section \<open>Data model\<close>

text \<open>
  \<^verbatim>\<open>core/features/types/index.ts\<close>: \<^verbatim>\<open>enum FeatureKind { Feature, Quota }\<close> and the
  fields of \<^verbatim>\<open>commonFeatureSchema\<close>. The \<^verbatim>\<open>configs\<close> payload is JSON.
\<close>

datatype FeatureKind = Feature | Quota

datatype json = JNum int | JStr string | JArr "json list" | JObj "(string \<times> json) list"

record CommonFeature =
  cf_feature :: string
  cf_type :: FeatureKind
  cf_version :: int
  cf_configs :: json

text \<open>
  A row of the definitions table (\<^verbatim>\<open>tx.feature\<close>): a catalog entry under its surrogate id.
\<close>

record feature_row =
  f_id :: int
  f_feature :: string
  f_type :: FeatureKind
  f_version :: int
  f_configs :: json

text \<open>
  A row of the activation table (\<^verbatim>\<open>tx.userFeature\<close>), with the columns the services read
  and write. Dates are timestamps; \<^verbatim>\<open>expiredAt\<close> is optional.
\<close>

record user_feature =
  uf_id :: int
  uf_userId :: string
  uf_featureId :: int
  uf_reason :: string
  uf_createdAt :: int
  uf_expiredAt :: "int option"
  uf_activated :: bool

text \<open>
  A row of the users table, with the columns of \<^verbatim>\<open>defaultUserSelect\<close> and the password.
\<close>

record user_row =
  u_id :: string
  u_name :: string
  u_email :: string
  u_password :: "string option"
  u_emailVerifiedAt :: "int option"
  u_avatarUrl :: "string option"
  u_registered :: bool
  u_createdAt :: int

text \<open>
  The database the services share. Tables are lists in insertion order;
  \<open>featureSeq\<close> and \<open>userFeatureSeq\<close> are the next ids the definitions table and
  the activation table hand out (autoincrement).
\<close>

record database =
  features :: "feature_row list"
  userFeatures :: "user_feature list"
  users :: "user_row list"
  featureSeq :: int
  userFeatureSeq :: int

datatype error =
    UserHasNoQuota string
  | QuotaNotFound string
  | FeatureNotFound string
  | EmailAlreadyUsed
  | InvalidEmail
  | InvalidPassword
  | QuotaConfigNotFound int
  | StoreFailure

section \<open>Queries and writes of the store\<close>

text \<open>
  The relation filter \<^verbatim>\<open>feature: { ... }\<close> of a query on \<^verbatim>\<open>userFeature\<close>: the row's
  definition (the definitions row with id \<^verbatim>\<open>featureId\<close>) exists and satisfies the condition.
\<close>

definition feature_of :: "database \<Rightarrow> user_feature \<Rightarrow> feature_row option" where
  "feature_of db r = find (\<lambda>f. f_id f = uf_featureId r) (features db)"

definition feature_is :: "(feature_row \<Rightarrow> bool) \<Rightarrow> database \<Rightarrow> user_feature \<Rightarrow> bool" where
  "feature_is P db r = (case feature_of db r of None \<Rightarrow> False | Some f \<Rightarrow> P f)"

text \<open>
  \<^verbatim>\<open>tx.feature.findFirst({ where: { feature, type }, select: { id }, orderBy: { version: 'desc' } })\<close>
  followed by \<^verbatim>\<open>.then(f => f?.id)\<close>.
\<close>

definition findLatestFeatureId :: "database \<Rightarrow> string \<Rightarrow> FeatureKind \<Rightarrow> int option" where
  "findLatestFeatureId db name kind =
     (case sort_key (\<lambda>f. - f_version f)
             (filter (\<lambda>f. f_feature f = name \<and> f_type f = kind) (features db)) of
        [] \<Rightarrow> None
      | f # _ \<Rightarrow> Some (f_id f))"

text \<open>
  \<^verbatim>\<open>tx.userFeature.create({ data })\<close>: the new row takes the next id; \<^verbatim>\<open>createdAt\<close>
  defaults to the time of the call.
\<close>

definition userFeature_create ::
  "int \<Rightarrow> string \<Rightarrow> int \<Rightarrow> string \<Rightarrow> bool \<Rightarrow> int option \<Rightarrow> database \<Rightarrow> database" where
  "userFeature_create now userId featureId reason activated expiredAt db =
     db\<lparr>userFeatures := userFeatures db @
           [\<lparr>uf_id = userFeatureSeq db, uf_userId = userId, uf_featureId = featureId,
             uf_reason = reason, uf_createdAt = now, uf_expiredAt = expiredAt,
             uf_activated = activated\<rparr>],
        userFeatureSeq := userFeatureSeq db + 1\<rparr>"

text \<open>
  \<^verbatim>\<open>userFeature.updateMany({ where, data: { activated: false } })\<close>.
\<close>

definition userFeature_deactivateMany :: "(user_feature \<Rightarrow> bool) \<Rightarrow> database \<Rightarrow> database" where
  "userFeature_deactivateMany cond db =
     db\<lparr>userFeatures :=
          map (\<lambda>r. if cond r then r\<lparr>uf_activated := False\<rparr> else r) (userFeatures db)\<rparr>"

text \<open>
  \<^verbatim>\<open>prisma.$transaction(async tx => ...)\<close>: the callback runs on the database; when it
  throws, its writes are rolled back and the error is passed on.
\<close>

definition transaction ::
  "(database \<Rightarrow> database \<times> (error + 'a)) \<Rightarrow> database \<Rightarrow> database \<times> (error + 'a)" where
  "transaction body db =
     (case body db of
        (db', Inl e) \<Rightarrow> (db, Inl e)
      | (db', Inr v) \<Rightarrow> (db', Inr v))"

section \<open>QuotaService\<close>

text \<open>\<^verbatim>\<open>QuotaService.hasQuota\<close>: the count of matching rows is positive.\<close>

definition hasQuota :: "database \<Rightarrow> string \<Rightarrow> string \<Rightarrow> bool" where
  "hasQuota db userId quota =
     (0 < length (filter (\<lambda>r. uf_userId r = userId
                             \<and> feature_is (\<lambda>f. f_feature f = quota \<and> f_type f = Quota) db r
                             \<and> uf_activated r) (userFeatures db)))"

text \<open>
  The callback of \<^verbatim>\<open>QuotaService.switchUserQuota\<close>. \<^verbatim>\<open>!featureId\<close> holds for
  \<^verbatim>\<open>undefined\<close> and for the id 0. The \<^verbatim>\<open>updateMany\<close> filters on \<^verbatim>\<open>userId\<close> and on
  the definition's kind (its \<^verbatim>\<open>id: undefined\<close> is no condition). The function returns
  the database as it stands when the callback ends or throws. This is the callback on
  a store whose calls all return; the store's own failures are modelled below.
\<close>

definition switchUserQuota_body ::
  "int \<Rightarrow> string \<Rightarrow> string \<Rightarrow> string option \<Rightarrow> int option \<Rightarrow> database
     \<Rightarrow> database \<times> (error + unit)" where
  "switchUserQuota_body now userId quota reason expiredAt db =
     (if hasQuota db userId quota then (db, Inr ())
      else
        (case findLatestFeatureId db quota Quota of
           None \<Rightarrow> (db, Inl (QuotaNotFound quota))
         | Some featureId \<Rightarrow>
             if featureId = 0 then (db, Inl (QuotaNotFound quota))
             else
               let db1 = userFeature_deactivateMany
                           (\<lambda>r. uf_userId r = userId \<and> feature_is (\<lambda>f. f_type f = Quota) db r) db;
                   db2 = userFeature_create now userId featureId
                           (case reason of None \<Rightarrow> ''switch quota'' | Some s \<Rightarrow> s)
                           True expiredAt db1
               in (db2, Inr ())))"

definition switchUserQuota ::
  "int \<Rightarrow> string \<Rightarrow> string \<Rightarrow> string option \<Rightarrow> int option \<Rightarrow> database
     \<Rightarrow> database \<times> (error + unit)" where
  "switchUserQuota now userId quota reason expiredAt =
     transaction (switchUserQuota_body now userId quota reason expiredAt)"

text \<open>
  The callback awaits four calls of the store, in this order: the count of
  \<^verbatim>\<open>hasQuota\<close> (call 0), the \<^verbatim>\<open>findFirst\<close> of the definition (call 1), \<^verbatim>\<open>updateMany\<close>
  (call 2) and \<^verbatim>\<open>create\<close> (call 3). Each of them may reject (a timeout, a lost
  connection, a constraint of the table): the rejected call writes nothing and the
  callback ends there with the store's error. \<open>fault = Some k\<close> is the run in which the
  call \<open>k\<close> rejects, \<open>fault = None\<close> the run in which none does. When \<^verbatim>\<open>create\<close>
  rejects, the callback ends with the records deactivated and nothing inserted.
\<close>

definition switchUserQuota_body_faulty ::
  "nat option \<Rightarrow> int \<Rightarrow> string \<Rightarrow> string \<Rightarrow> string option \<Rightarrow> int option \<Rightarrow> database
     \<Rightarrow> database \<times> (error + unit)" where
  "switchUserQuota_body_faulty fault now userId quota reason expiredAt db =
     (if fault = Some 0 then (db, Inl StoreFailure)
      else if hasQuota db userId quota then (db, Inr ())
      else if fault = Some 1 then (db, Inl StoreFailure)
      else
        (case findLatestFeatureId db quota Quota of
           None \<Rightarrow> (db, Inl (QuotaNotFound quota))
         | Some featureId \<Rightarrow>
             if featureId = 0 then (db, Inl (QuotaNotFound quota))
             else if fault = Some 2 then (db, Inl StoreFailure)
             else
               let db1 = userFeature_deactivateMany
                           (\<lambda>r. uf_userId r = userId \<and> feature_is (\<lambda>f. f_type f = Quota) db r) db
               in
                 if fault = Some 3 then (db1, Inl StoreFailure)
                 else
                   (userFeature_create now userId featureId
                      (case reason of None \<Rightarrow> ''switch quota'' | Some s \<Rightarrow> s)
                      True expiredAt db1,
                    Inr ())))"

definition switchUserQuota_faulty ::
  "nat option \<Rightarrow> int \<Rightarrow> string \<Rightarrow> string \<Rightarrow> string option \<Rightarrow> int option \<Rightarrow> database
     \<Rightarrow> database \<times> (error + unit)" where
  "switchUserQuota_faulty fault now userId quota reason expiredAt =
     transaction (switchUserQuota_body_faulty fault now userId quota reason expiredAt)"

section \<open>The compiled-in catalog\<close>

text \<open>
  \<^verbatim>\<open>core/features/types/common.ts\<close>: the values of the string enum \<^verbatim>\<open>FeatureType\<close>.
\<close>

abbreviation FeatureType_Admin :: string where "FeatureType_Admin \<equiv> ''administrator''"
abbreviation FeatureType_EarlyAccess :: string where "FeatureType_EarlyAccess \<equiv> ''early_access''"
abbreviation FeatureType_AIEarlyAccess :: string where "FeatureType_AIEarlyAccess \<equiv> ''ai_early_access''"
abbreviation FeatureType_UnlimitedCopilot :: string where "FeatureType_UnlimitedCopilot \<equiv> ''unlimited_copilot''"
abbreviation FeatureType_UnlimitedWorkspace :: string where "FeatureType_UnlimitedWorkspace \<equiv> ''unlimited_workspace''"
abbreviation FeatureType_PersonalWorkspace :: string where "FeatureType_PersonalWorkspace \<equiv> ''personal_workspace''"
abbreviation FeatureType_TeamWorkspace :: string where "FeatureType_TeamWorkspace \<equiv> ''team_workspace''"
abbreviation FeatureType_Copilot :: string where "FeatureType_Copilot \<equiv> ''copilot''"

text \<open>
  \<^verbatim>\<open>core/features/types/index.ts\<close>: the array \<^verbatim>\<open>Features\<close>, entry by entry. The constants
  \<^verbatim>\<open>OneMB\<close>, \<^verbatim>\<open>OneGB\<close> and \<^verbatim>\<open>OneDay\<close> are imported from \<^verbatim>\<open>quota/constant\<close>, which is
  not among the sources: they are parameters of the catalog.
\<close>

definition Features :: "int \<Rightarrow> int \<Rightarrow> int \<Rightarrow> CommonFeature list" where
  "Features OneMB OneGB OneDay =
     [\<lparr>cf_feature = FeatureType_Copilot, cf_type = Feature, cf_version = 1,
       cf_configs = JObj []\<rparr>,
      \<lparr>cf_feature = FeatureType_EarlyAccess, cf_type = Feature, cf_version = 1,
       cf_configs = JObj [(''whitelist'', JArr [JStr ''@toeverything.info''])]\<rparr>,
      \<lparr>cf_feature = FeatureType_EarlyAccess, cf_type = Feature, cf_version = 2,
       cf_configs = JObj [(''whitelist'', JArr [])]\<rparr>,
      \<lparr>cf_feature = FeatureType_UnlimitedWorkspace, cf_type = Feature, cf_version = 1,
       cf_configs = JObj [(''name'', JStr ''Unlimited''), (''blobLimit'', JNum OneGB),
                          (''storageQuota'', JNum (500 * OneGB)),
                          (''historyPeriod'', JNum (365 * OneDay)),
                          (''memberLimit'', JNum 10000)]\<rparr>,
      \<lparr>cf_feature = FeatureType_UnlimitedCopilot, cf_type = Feature, cf_version = 1,
       cf_configs = JObj []\<rparr>,
      \<lparr>cf_feature = FeatureType_AIEarlyAccess, cf_type = Feature, cf_version = 1,
       cf_configs = JObj []\<rparr>,
      \<lparr>cf_feature = FeatureType_Admin, cf_type = Feature, cf_version = 1,
       cf_configs = JObj []\<rparr>,
      \<lparr>cf_feature = FeatureType_PersonalWorkspace, cf_type = Feature, cf_version = 1,
       cf_configs = JObj [(''name'', JStr ''Personal''), (''blobLimit'', JNum (10 * OneMB)),
                          (''storageQuota'', JNum (5 * OneGB)),
                          (''historyPeriod'', JNum (7 * OneDay)),
                          (''memberLimit'', JNum 1)]\<rparr>,
      \<lparr>cf_feature = FeatureType_TeamWorkspace, cf_type = Feature, cf_version = 1,
       cf_configs = JObj [(''name'', JStr ''Team''), (''blobLimit'', JNum (30 * OneMB)),
                          (''storageQuota'', JNum (100 * OneGB)),
                          (''historyPeriod'', JNum (28 * OneDay)),
                          (''memberLimit'', JNum 100)]\<rparr>]"

text \<open>
  Modelled from the spec: \<^verbatim>\<open>upsertFeature\<close> (\<^verbatim>\<open>data/migrations/utils/user-features\<close>) is
  not among the sources. The spec's \<^verbatim>\<open>ensureSeeded\<close>: for each (name, version) of the
  registry not present in storage, insert it; existing rows are never modified.
\<close>

definition upsertFeature :: "database \<Rightarrow> CommonFeature \<Rightarrow> database" where
  "upsertFeature db c =
     (if list_ex (\<lambda>f. f_feature f = cf_feature c \<and> f_version f = cf_version c) (features db)
      then db
      else db\<lparr>features := features db @
                  [\<lparr>f_id = featureSeq db, f_feature = cf_feature c, f_type = cf_type c,
                    f_version = cf_version c, f_configs = cf_configs c\<rparr>],
               featureSeq := featureSeq db + 1\<rparr>)"

text \<open>
  \<^verbatim>\<open>UserFeaturesInit1698652531198.up\<close>: the migration upserts every catalog entry in order.
\<close>

definition UserFeaturesInit_up :: "int \<Rightarrow> int \<Rightarrow> int \<Rightarrow> database \<Rightarrow> database" where
  "UserFeaturesInit_up OneMB OneGB OneDay db = foldl upsertFeature db (Features OneMB OneGB OneDay)"

text \<open>An empty database whose sequences start at 1.\<close>

definition empty_database :: database where
  "empty_database = \<lparr>features = [], userFeatures = [], users = [], featureSeq = 1,
                      userFeatureSeq = 1\<rparr>"

section \<open>QuotaService: the read path\<close>

text \<open>
  What \<^verbatim>\<open>getUserQuota\<close> returns: the selected columns of the activation row and, under
  \<^verbatim>\<open>feature\<close>, the resolved quota definition. The entries of \<^verbatim>\<open>getUserQuotas\<close> select
  \<^verbatim>\<open>activated\<close> as well.
\<close>

record 'q user_quota =
  uq_reason :: string
  uq_createdAt :: int
  uq_expiredAt :: "int option"
  uq_featureId :: int
  uq_feature :: 'q

record 'q user_quota_entry =
  qe_activated :: bool
  qe_reason :: string
  qe_createdAt :: int
  qe_expiredAt :: "int option"
  qe_featureId :: int
  qe_feature :: 'q

text \<open>
  \<^verbatim>\<open>findFirst\<close> without \<^verbatim>\<open>orderBy\<close>: the store returns one of the matching rows, and
  nothing says which. The store's choice is a parameter: \<open>choice rows\<close> is the index
  (taken modulo the number of rows) of the row returned among the matching rows.
\<close>

definition findFirst_unordered :: "('a list \<Rightarrow> nat) \<Rightarrow> 'a list \<Rightarrow> 'a option" where
  "findFirst_unordered choice rows =
     (if rows = [] then None else Some (rows ! (choice rows mod length rows)))"

text \<open>
  \<^verbatim>\<open>QuotaService.getUserQuota\<close>. The enum \<^verbatim>\<open>QuotaType\<close> (\<^verbatim>\<open>quota/types\<close>) and the
  resolver \<^verbatim>\<open>QuotaConfig.get\<close> (\<^verbatim>\<open>quota/quota\<close>) are not among the sources: the list of
  the enum's values and the resolver, a read of the database that returns a definition
  or throws, are parameters. The query matches on the definition's name, whatever
  its kind.
\<close>

definition getUserQuota ::
  "string list \<Rightarrow> (database \<Rightarrow> int \<Rightarrow> error + 'q) \<Rightarrow> (user_feature list \<Rightarrow> nat) \<Rightarrow> database
     \<Rightarrow> string \<Rightarrow> error + 'q user_quota" where
  "getUserQuota QuotaType QuotaConfig_get choice db userId =
     (case findFirst_unordered choice
             (filter (\<lambda>r. uf_userId r = userId
                          \<and> feature_is (\<lambda>f. f_feature f \<in> set QuotaType) db r
                          \<and> uf_activated r) (userFeatures db)) of
        None \<Rightarrow> Inl (UserHasNoQuota userId)
      | Some quota \<Rightarrow>
          (case QuotaConfig_get db (uf_featureId quota) of
             Inl e \<Rightarrow> Inl e
           | Inr feature \<Rightarrow>
               Inr \<lparr>uq_reason = uf_reason quota, uq_createdAt = uf_createdAt quota,
                    uq_expiredAt = uf_expiredAt quota, uq_featureId = uf_featureId quota,
                    uq_feature = feature\<rparr>))"

text \<open>
  \<^verbatim>\<open>QuotaService.getUserQuotas\<close>: the rows in ascending id order; the \<^verbatim>\<open>try\<close>/\<^verbatim>\<open>catch\<close>
  turns a throwing resolver into \<^verbatim>\<open>null\<close>, and the final \<^verbatim>\<open>filter\<close> drops the nulls.
\<close>

definition getUserQuotas ::
  "(database \<Rightarrow> int \<Rightarrow> error + 'q) \<Rightarrow> database \<Rightarrow> string \<Rightarrow> 'q user_quota_entry list" where
  "getUserQuotas QuotaConfig_get db userId =
     (let quotas = sort_key uf_id
                     (filter (\<lambda>r. uf_userId r = userId
                                  \<and> feature_is (\<lambda>f. f_type f = Quota) db r) (userFeatures db));
          configs = map (\<lambda>quota.
                      case QuotaConfig_get db (uf_featureId quota) of
                        Inr feature \<Rightarrow>
                          Some \<lparr>qe_activated = uf_activated quota, qe_reason = uf_reason quota,
                                qe_createdAt = uf_createdAt quota,
                                qe_expiredAt = uf_expiredAt quota,
                                qe_featureId = uf_featureId quota, qe_feature = feature\<rparr>
                      | Inl e \<Rightarrow> None) quotas
      in map the (filter (\<lambda>quota. quota \<noteq> None) configs))"

text \<open>
  Modelled from the spec: \<^verbatim>\<open>QuotaConfig.get\<close> is not among the sources. The spec's
  \<^verbatim>\<open>resolve(definitionId)\<close>: fetch by id; fails if the row is absent or if its kind is not
  the one the caller expects. It instantiates the resolver parameter in examples.
\<close>

definition QuotaConfig_get :: "database \<Rightarrow> int \<Rightarrow> error + feature_row" where
  "QuotaConfig_get db featureId =
     (case find (\<lambda>f. f_id f = featureId \<and> f_type f = Quota) (features db) of
        None \<Rightarrow> Inl (QuotaConfigNotFound featureId)
      | Some f \<Rightarrow> Inr f)"

section \<open>UserService\<close>

text \<open>
  \<^verbatim>\<open>UserService.addUserFeatures\<close>: the lookup of an active grant of the name
  (\<^verbatim>\<open>latestFlag\<close>), then the loop over the names inside the transaction's callback.
\<close>

definition findLatestFlag :: "database \<Rightarrow> string \<Rightarrow> string \<Rightarrow> user_feature option" where
  "findLatestFlag db userId feature =
     (case sort_key (\<lambda>r. - uf_createdAt r)
             (filter (\<lambda>r. uf_userId r = userId
                          \<and> feature_is (\<lambda>f. f_feature f = feature \<and> f_type f = Feature) db r
                          \<and> uf_activated r) (userFeatures db)) of
        [] \<Rightarrow> None
      | r # _ \<Rightarrow> Some r)"

fun addUserFeatures_loop ::
  "int \<Rightarrow> string \<Rightarrow> string list \<Rightarrow> database \<Rightarrow> database \<times> (error + unit)" where
  "addUserFeatures_loop now userId [] db = (db, Inr ())"
| "addUserFeatures_loop now userId (feature # rest) db =
     (case findLatestFlag db userId feature of
        Some latestFlag \<Rightarrow> addUserFeatures_loop now userId rest db
      | None \<Rightarrow>
          (case findLatestFeatureId db feature Feature of
             None \<Rightarrow> (db, Inl (FeatureNotFound feature))
           | Some featureId \<Rightarrow>
               if featureId = 0 then (db, Inl (FeatureNotFound feature))
               else addUserFeatures_loop now userId rest
                      (userFeature_create now userId featureId ''sign up'' True None db)))"

definition addUserFeatures ::
  "int \<Rightarrow> string \<Rightarrow> string list \<Rightarrow> database \<Rightarrow> database \<times> (error + unit)" where
  "addUserFeatures now userId features' = transaction (addUserFeatures_loop now userId features')"

text \<open>
  The loop with store calls that may reject, as for the quota switch. A pass of the
  loop awaits up to three calls: the \<^verbatim>\<open>findFirst\<close> of the active grant, the
  \<^verbatim>\<open>findFirst\<close> of the definition and \<^verbatim>\<open>create\<close>; \<open>k\<close> numbers the next call of the
  transaction.
\<close>

fun addUserFeatures_loop_faulty ::
  "nat option \<Rightarrow> nat \<Rightarrow> int \<Rightarrow> string \<Rightarrow> string list \<Rightarrow> database
     \<Rightarrow> database \<times> (error + unit)" where
  "addUserFeatures_loop_faulty fault k now userId [] db = (db, Inr ())"
| "addUserFeatures_loop_faulty fault k now userId (feature # rest) db =
     (if fault = Some k then (db, Inl StoreFailure)
      else
        (case findLatestFlag db userId feature of
           Some latestFlag \<Rightarrow> addUserFeatures_loop_faulty fault (k + 1) now userId rest db
         | None \<Rightarrow>
             if fault = Some (k + 1) then (db, Inl StoreFailure)
             else
               (case findLatestFeatureId db feature Feature of
                  None \<Rightarrow> (db, Inl (FeatureNotFound feature))
                | Some featureId \<Rightarrow>
                    if featureId = 0 then (db, Inl (FeatureNotFound feature))
                    else if fault = Some (k + 2) then (db, Inl StoreFailure)
                    else addUserFeatures_loop_faulty fault (k + 3) now userId rest
                           (userFeature_create now userId featureId ''sign up'' True None db))))"

definition addUserFeatures_faulty ::
  "nat option \<Rightarrow> int \<Rightarrow> string \<Rightarrow> string list \<Rightarrow> database \<Rightarrow> database \<times> (error + unit)" where
  "addUserFeatures_faulty fault now userId features' =
     transaction (addUserFeatures_loop_faulty fault 0 now userId features')"

text \<open>
  The collaborators of \<^verbatim>\<open>UserService\<close> that are not among the sources: the email and
  password validators, the password hash, SQL's \<^verbatim>\<open>lower\<close>, and the defaults of the users
  table (a fresh id, the \<^verbatim>\<open>registered\<close> flag).
\<close>

record env =
  validEmail :: "string \<Rightarrow> bool"
  validPassword :: "string \<Rightarrow> bool"
  encryptPassword :: "string \<Rightarrow> string"
  lowerCase :: "string \<Rightarrow> string"
  newUserId :: "user_row list \<Rightarrow> string"
  defaultRegistered :: bool

text \<open>
  The enum \<^verbatim>\<open>UserGroup\<close> (\<^verbatim>\<open>user/types\<close>) is not among the sources; \<^verbatim>\<open>fulfillUser\<close>
  names three members and has a \<^verbatim>\<open>default\<close> case for any other.
\<close>

datatype UserGroup = Admin | TeamLead | User | OtherGroup

text \<open>
  The \<^verbatim>\<open>data\<close> argument, \<^verbatim>\<open>Omit<Partial<Prisma.UserCreateInput>, 'id'>\<close>: every key may be
  absent (\<open>None\<close>); a present key of a nullable column may hold \<^verbatim>\<open>null\<close>.
\<close>

record user_input =
  d_name :: "string option"
  d_email :: "string option"
  d_password :: "string option option"
  d_emailVerifiedAt :: "int option option"
  d_avatarUrl :: "string option option"
  d_registered :: "bool option"
  d_createdAt :: "int option"

text \<open>\<^verbatim>\<open>Object.keys(data).length\<close>.\<close>

definition data_keys :: "user_input \<Rightarrow> nat" where
  "data_keys d =
     length (filter (\<lambda>present. present)
       [d_name d \<noteq> None, d_email d \<noteq> None, d_password d \<noteq> None,
        d_emailVerifiedAt d \<noteq> None, d_avatarUrl d \<noteq> None, d_registered d \<noteq> None,
        d_createdAt d \<noteq> None])"

text \<open>\<^verbatim>\<open>email.split('@')[0]\<close>.\<close>

definition email_prefix :: "string \<Rightarrow> string" where
  "email_prefix email = takeWhile (\<lambda>c. c \<noteq> CHR ''@'') email"

text \<open>
  \<^verbatim>\<open>UserService.findUserByEmail\<close>: the email is validated, then the first row whose
  lower-cased email matches is returned.
\<close>

definition findUserByEmail :: "env \<Rightarrow> database \<Rightarrow> string \<Rightarrow> error + user_row option" where
  "findUserByEmail ev db email =
     (if \<not> validEmail ev email then Inl InvalidEmail
      else Inr (find (\<lambda>u. lowerCase ev (u_email u) = lowerCase ev email) (users db)))"

text \<open>
  \<^verbatim>\<open>UserService.createUser_without_verification\<close>, on the email and the other keys of
  its \<^verbatim>\<open>data\<close>. The feature grants run after the user row is written, in a
  transaction of their own.
\<close>

definition createUser_without_verification ::
  "env \<Rightarrow> int \<Rightarrow> string \<Rightarrow> user_input \<Rightarrow> string list \<Rightarrow> database
     \<Rightarrow> database \<times> (error + user_row)" where
  "createUser_without_verification ev now email data features' db =
     (case findUserByEmail ev db email of
        Inl e \<Rightarrow> (db, Inl e)
      | Inr (Some user) \<Rightarrow> (db, Inl EmailAlreadyUsed)
      | Inr None \<Rightarrow>
          let password = (case d_password data of
                            Some (Some p) \<Rightarrow> if p \<noteq> [] then Some (encryptPassword ev p) else Some p
                          | _ \<Rightarrow> None);
              name = (case d_name data of
                        Some n \<Rightarrow> if n \<noteq> [] then n else email_prefix email
                      | None \<Rightarrow> email_prefix email);
              createdUser =
                \<lparr>u_id = newUserId ev (users db), u_name = name, u_email = email,
                 u_password = password,
                 u_emailVerifiedAt = (case d_emailVerifiedAt data of Some v \<Rightarrow> v | None \<Rightarrow> None),
                 u_avatarUrl = (case d_avatarUrl data of Some v \<Rightarrow> v | None \<Rightarrow> None),
                 u_registered = (case d_registered data of Some b \<Rightarrow> b
                                 | None \<Rightarrow> defaultRegistered ev),
                 u_createdAt = (case d_createdAt data of Some t \<Rightarrow> t | None \<Rightarrow> now)\<rparr>;
              db1 = db\<lparr>users := users db @ [createdUser]\<rparr>
          in (case addUserFeatures now (u_id createdUser) features' db1 of
                (db2, Inl e) \<Rightarrow> (db2, Inl e)
              | (db2, Inr u) \<Rightarrow> (db2, Inr createdUser)))"

text \<open>\<^verbatim>\<open>UserService.createUser\<close>: the validations, then the creation.\<close>

definition createUser ::
  "env \<Rightarrow> int \<Rightarrow> string \<Rightarrow> user_input \<Rightarrow> string list \<Rightarrow> database
     \<Rightarrow> database \<times> (error + user_row)" where
  "createUser ev now email data features' db =
     (if \<not> validEmail ev email then (db, Inl InvalidEmail)
      else
        (case d_password data of
           Some (Some p) \<Rightarrow>
             if p \<noteq> [] \<and> \<not> validPassword ev p then (db, Inl InvalidPassword)
             else createUser_without_verification ev now email data features' db
         | _ \<Rightarrow> createUser_without_verification ev now email data features' db))"

text \<open>\<^verbatim>\<open>prisma.user.update({ where: { id }, data })\<close>: the present keys overwrite the row.\<close>

definition apply_user_input :: "user_input \<Rightarrow> user_row \<Rightarrow> user_row" where
  "apply_user_input d u =
     u\<lparr>u_name := (case d_name d of Some n \<Rightarrow> n | None \<Rightarrow> u_name u),
       u_email := (case d_email d of Some e \<Rightarrow> e | None \<Rightarrow> u_email u),
       u_password := (case d_password d of Some p \<Rightarrow> p | None \<Rightarrow> u_password u),
       u_emailVerifiedAt := (case d_emailVerifiedAt d of Some v \<Rightarrow> v
                             | None \<Rightarrow> u_emailVerifiedAt u),
       u_avatarUrl := (case d_avatarUrl d of Some a \<Rightarrow> a | None \<Rightarrow> u_avatarUrl u),
       u_registered := (case d_registered d of Some b \<Rightarrow> b | None \<Rightarrow> u_registered u),
       u_createdAt := (case d_createdAt d of Some t \<Rightarrow> t | None \<Rightarrow> u_createdAt u)\<rparr>"

definition user_update :: "string \<Rightarrow> user_input \<Rightarrow> database \<Rightarrow> database" where
  "user_update userId d db =
     db\<lparr>users := map (\<lambda>u. if u_id u = userId then apply_user_input d u else u) (users db)\<rparr>"

text \<open>The \<^verbatim>\<open>switch (group)\<close> at the head of \<^verbatim>\<open>fulfillUser\<close>.\<close>

fun group_features :: "UserGroup \<Rightarrow> string list" where
  "group_features Admin = [FeatureType_Admin, FeatureType_UnlimitedWorkspace]"
| "group_features TeamLead = [FeatureType_TeamWorkspace]"
| "group_features User = [FeatureType_PersonalWorkspace]"
| "group_features OtherGroup = []"

text \<open>
  \<^verbatim>\<open>UserService.fulfillUser\<close>. For a new email the user is created from
  \<^verbatim>\<open>{ email, name: email.split('@')[0], ...data }\<close>. For an existing user the keys
  \<^verbatim>\<open>registered\<close> and \<^verbatim>\<open>emailVerifiedAt\<close> are deleted from \<^verbatim>\<open>data\<close> when the user has
  them; if keys remain, the user row is updated, every active activation row of the
  user is deactivated, and the group's features are granted. The three writes are
  separate calls: nothing rolls the first two back when the third throws. The
  \<^verbatim>\<open>user.updated\<close> event and the log line write nothing to the database and are left out.
\<close>

definition delete_held_keys :: "user_row \<Rightarrow> user_input \<Rightarrow> user_input" where
  "delete_held_keys user data =
     (let data1 = (if u_registered user then data\<lparr>d_registered := None\<rparr> else data)
      in if u_emailVerifiedAt user \<noteq> None then data1\<lparr>d_emailVerifiedAt := None\<rparr> else data1)"

definition fulfillUser ::
  "env \<Rightarrow> int \<Rightarrow> string \<Rightarrow> UserGroup \<Rightarrow> user_input \<Rightarrow> database
     \<Rightarrow> database \<times> (error + user_row)" where
  "fulfillUser ev now email group' data db =
     (let features' = group_features group' in
      case findUserByEmail ev db email of
        Inl e \<Rightarrow> (db, Inl e)
      | Inr None \<Rightarrow>
          createUser ev now (case d_email data of Some e \<Rightarrow> e | None \<Rightarrow> email)
            (data\<lparr>d_name := (case d_name data of Some n \<Rightarrow> Some n
                               | None \<Rightarrow> Some (email_prefix email))\<rparr>)
            features' db
      | Inr (Some user) \<Rightarrow>
          let data' = delete_held_keys user data
          in
            if data_keys data' \<noteq> 0 then
              let db1 = user_update (u_id user) data' db;
                  db2 = userFeature_deactivateMany
                          (\<lambda>r. uf_userId r = u_id user \<and> uf_activated r) db1
              in (case addUserFeatures now (u_id user) features' db2 of
                    (db3, Inl e) \<Rightarrow> (db3, Inl e)
                  | (db3, Inr u) \<Rightarrow> (db3, Inr user))
            else (db, Inr user))"

section \<open>Notions of the properties\<close>

text \<open>
  The active Quota-kind records of an account; what a switch does to a record of the
  account; the two outcomes of a switch; and running a sequence of switches, each
  call with its arguments, whatever it returns.
\<close>

definition activeQuotaRecords :: "database \<Rightarrow> string \<Rightarrow> user_feature list" where
  "activeQuotaRecords db userId =
     filter (\<lambda>r. uf_userId r = userId \<and> uf_activated r
                  \<and> feature_is (\<lambda>f. f_type f = Quota) db r) (userFeatures db)"

definition deactivateQuota :: "string \<Rightarrow> database \<Rightarrow> user_feature \<Rightarrow> user_feature" where
  "deactivateQuota userId db r =
     (if uf_userId r = userId \<and> feature_is (\<lambda>f. f_type f = Quota) db r
      then r\<lparr>uf_activated := False\<rparr> else r)"

definition switch_effect :: "string \<Rightarrow> database \<Rightarrow> database \<Rightarrow> bool" where
  "switch_effect userId d d' =
     (d' = d \<or>
      (userFeatures d' \<noteq> [] \<and>
       butlast (userFeatures d') = map (deactivateQuota userId d) (userFeatures d) \<and>
       uf_userId (last (userFeatures d')) = userId \<and>
       uf_activated (last (userFeatures d')) \<and>
       feature_is (\<lambda>f. f_type f = Quota) d (last (userFeatures d'))))"

type_synonym switch_call = "int \<times> string \<times> string \<times> string option \<times> int option"

fun run_switch :: "database \<Rightarrow> switch_call \<Rightarrow> database" where
  "run_switch db (now, userId, quota, reason, expiredAt) =
     fst (switchUserQuota now userId quota reason expiredAt db)"

definition run_switches :: "switch_call list \<Rightarrow> database \<Rightarrow> database" where
  "run_switches calls db = foldl run_switch db calls"

text \<open>
  The values the two read operations build from a row and its resolved definition.
\<close>

definition quota_of :: "user_feature \<Rightarrow> 'q \<Rightarrow> 'q user_quota" where
  "quota_of r d = \<lparr>uq_reason = uf_reason r, uq_createdAt = uf_createdAt r,
                   uq_expiredAt = uf_expiredAt r, uq_featureId = uf_featureId r,
                   uq_feature = d\<rparr>"

definition quota_entry_of :: "user_feature \<Rightarrow> 'q \<Rightarrow> 'q user_quota_entry" where
  "quota_entry_of r d = \<lparr>qe_activated = uf_activated r, qe_reason = uf_reason r,
                         qe_createdAt = uf_createdAt r, qe_expiredAt = uf_expiredAt r,
                         qe_featureId = uf_featureId r, qe_feature = d\<rparr>"

text \<open>
  Reading a key of a JSON object, and the databases whose definition rows are all
  entries of the compiled-in catalog.
\<close>

definition json_field :: "json \<Rightarrow> string \<Rightarrow> json option" where
  "json_field j k = (case j of JObj kvs \<Rightarrow> map_of kvs k | _ \<Rightarrow> None)"

definition catalog_rows :: "int \<Rightarrow> int \<Rightarrow> int \<Rightarrow> database \<Rightarrow> bool" where
  "catalog_rows OneMB OneGB OneDay db =
     list_all (\<lambda>f. list_ex (\<lambda>c. cf_feature c = f_feature f \<and> cf_type c = f_type f
                                 \<and> cf_version c = f_version f \<and> cf_configs c = f_configs f)
                     (Features OneMB OneGB OneDay))
       (features db)"

text \<open>
  The activation records of an account for a feature name (of Feature kind), and the
  active ones among them.
\<close>

definition featureRecords :: "database \<Rightarrow> string \<Rightarrow> string \<Rightarrow> user_feature list" where
  "featureRecords db userId name =
     filter (\<lambda>r. uf_userId r = userId
                 \<and> feature_is (\<lambda>f. f_feature f = name \<and> f_type f = Feature) db r)
            (userFeatures db)"

definition activeFeatureRecords :: "database \<Rightarrow> string \<Rightarrow> string \<Rightarrow> user_feature list" where
  "activeFeatureRecords db userId name = filter uf_activated (featureRecords db userId name)"

text \<open>
  A record as \<^verbatim>\<open>addUserFeatures\<close> inserts it for an account and one of the given names.
\<close>

definition grantedRow :: "database \<Rightarrow> string \<Rightarrow> string list \<Rightarrow> user_feature \<Rightarrow> bool" where
  "grantedRow db userId names r =
     (uf_userId r = userId \<and> uf_activated r \<and> uf_reason r = ''sign up''
      \<and> feature_is (\<lambda>f. f_feature f \<in> set names \<and> f_type f = Feature) db r)"

section \<open>Databases of the examples\<close>

text \<open>
  The database after the migration ran on an empty database, with the binary units
  and the day in milliseconds for the catalog's constants.
\<close>

definition seeded_database :: database where
  "seeded_database = UserFeaturesInit_up 1048576 1073741824 86400000 empty_database"

text \<open>
  A database whose definitions table holds the Personal and Team workspace entries
  under the kind \<open>Quota\<close>, with the catalog's configs, and three Feature-kind entries.
\<close>

definition quota_database :: database where
  "quota_database =
     \<lparr>features =
        [\<lparr>f_id = 1, f_feature = FeatureType_PersonalWorkspace, f_type = Quota, f_version = 1,
          f_configs = JObj [(''name'', JStr ''Personal''), (''blobLimit'', JNum 10485760),
                            (''storageQuota'', JNum 5368709120),
                            (''historyPeriod'', JNum 604800000), (''memberLimit'', JNum 1)]\<rparr>,
         \<lparr>f_id = 2, f_feature = FeatureType_TeamWorkspace, f_type = Quota, f_version = 1,
          f_configs = JObj [(''name'', JStr ''Team''), (''blobLimit'', JNum 31457280),
                            (''storageQuota'', JNum 107374182400),
                            (''historyPeriod'', JNum 2419200000), (''memberLimit'', JNum 100)]\<rparr>,
         \<lparr>f_id = 3, f_feature = FeatureType_Copilot, f_type = Feature, f_version = 1,
          f_configs = JObj []\<rparr>,
         \<lparr>f_id = 4, f_feature = FeatureType_Admin, f_type = Feature, f_version = 1,
          f_configs = JObj []\<rparr>,
         \<lparr>f_id = 5, f_feature = FeatureType_UnlimitedWorkspace, f_type = Feature, f_version = 1,
          f_configs = JObj [(''name'', JStr ''Unlimited''), (''blobLimit'', JNum 1073741824),
                            (''storageQuota'', JNum 536870912000),
                            (''historyPeriod'', JNum 31536000000),
                            (''memberLimit'', JNum 10000)]\<rparr>],
      userFeatures = [], users = [], featureSeq = 6, userFeatureSeq = 1\<rparr>"

text \<open>
  The same with a second version of the Team entry, stored under a later id.
\<close>

definition versioned_database :: database where
  "versioned_database =
     quota_database\<lparr>features := features quota_database @
        [\<lparr>f_id = 6, f_feature = FeatureType_TeamWorkspace, f_type = Quota, f_version = 2,
          f_configs = JObj [(''name'', JStr ''Team''), (''blobLimit'', JNum 31457280),
                            (''storageQuota'', JNum 214748364800),
                            (''historyPeriod'', JNum 2419200000), (''memberLimit'', JNum 100)]\<rparr>],
        featureSeq := 7\<rparr>"

text \<open>
  An account with a copilot grant and the Personal quota: the grant, then the switch.
\<close>

definition granted_database :: database where
  "granted_database =
     fst (switchUserQuota 2 ''u1'' FeatureType_PersonalWorkspace (Some ''sign up'') None
       (fst (addUserFeatures 1 ''u1'' [FeatureType_Copilot] quota_database)))"

text \<open>
  The collaborators of the examples, and the database above with its user.
\<close>

definition example_env :: env where
  "example_env = \<lparr>validEmail = (\<lambda>e. CHR ''@'' \<in> set e), validPassword = (\<lambda>p. 8 \<le> length p),
                   encryptPassword = (\<lambda>p. ''hash:'' @ p), lowerCase = (\<lambda>s. s),
                   newUserId = (\<lambda>us. ''user-'' @ replicate (length us) CHR ''i''),
                   defaultRegistered = True\<rparr>"

definition member_database :: database where
  "member_database =
     granted_database\<lparr>users :=
        [\<lparr>u_id = ''u1'', u_name = ''ann'', u_email = ''ann@example.org'', u_password = None,
          u_emailVerifiedAt = None, u_avatarUrl = None, u_registered = True,
          u_createdAt = 0\<rparr>]\<rparr>"

text \<open>
  An account created by \<^verbatim>\<open>fulfillUser\<close> in the group \<open>User\<close> on the seeded database,
  and an account switched to the Personal quota on the database with Quota-kind
  workspace definitions.
\<close>

definition signed_up_database :: database where
  "signed_up_database =
     fst (fulfillUser example_env 1 ''ann@example.org'' User
            \<lparr>d_name = None, d_email = None, d_password = None, d_emailVerifiedAt = None,
             d_avatarUrl = None, d_registered = None, d_createdAt = None\<rparr>
            seeded_database)"

definition personal_database :: database where
  "personal_database =
     fst (switchUserQuota 1 ''u1'' FeatureType_PersonalWorkspace (Some ''sign up'') None
            quota_database)"

text \<open>
  A resolver that looks the definition up by id only, whatever its kind.
\<close>

definition resolve_by_id :: "database \<Rightarrow> int \<Rightarrow> error + feature_row" where
  "resolve_by_id db featureId =
     (case find (\<lambda>f. f_id f = featureId) (features db) of
        None \<Rightarrow> Inl (QuotaConfigNotFound featureId)
      | Some f \<Rightarrow> Inr f)"

section \<open>Properties\<close>

subsection \<open>The store's queries\<close>

lemma feature_of_cong: "features db' = features db \<Longrightarrow> feature_of db' r = feature_of db r"
  by (simp add: feature_of_def)

lemma feature_is_cong: "features db' = features db \<Longrightarrow> feature_is P db' r = feature_is P db r"
  by (simp add: feature_is_def feature_of_def)

lemma feature_is_activated [simp]: "feature_is P db (r\<lparr>uf_activated := b\<rparr>) = feature_is P db r"
  by (simp add: feature_is_def feature_of_def)

lemma find_by_id:
  "distinct (map f_id fs) \<Longrightarrow> f \<in> set fs \<Longrightarrow> find (\<lambda>g. f_id g = f_id f) fs = Some f"
  by (induction fs) (auto simp: rev_image_eqI)

lemma feature_is_iff:
  assumes "distinct (map f_id (features db))"
  shows "feature_is P db r \<longleftrightarrow> (\<exists>f\<in>set (features db). f_id f = uf_featureId r \<and> P f)"
proof
  assume "feature_is P db r"
  then obtain f where f: "find (\<lambda>f. f_id f = uf_featureId r) (features db) = Some f" "P f"
    by (auto simp: feature_is_def feature_of_def split: option.splits)
  then show "\<exists>f\<in>set (features db). f_id f = uf_featureId r \<and> P f"
    by (auto simp: find_Some_iff)
next
  assume "\<exists>f\<in>set (features db). f_id f = uf_featureId r \<and> P f"
  then obtain f where f: "f \<in> set (features db)" "f_id f = uf_featureId r" "P f" by blast
  from find_by_id [OF assms f(1)] f show "feature_is P db r"
    by (simp add: feature_is_def feature_of_def)
qed

lemma feature_is_imp_ex:
  "feature_is P db r \<Longrightarrow> \<exists>f\<in>set (features db). f_id f = uf_featureId r \<and> P f"
  by (auto simp: feature_is_def feature_of_def find_Some_iff split: option.splits)

lemma sort_key_hd_min:
  assumes "sort_key k xs = y # ys"
  shows "y \<in> set xs \<and> (\<forall>x\<in>set xs. k y \<le> k x)"
proof -
  have s: "sorted (map k (y # ys))" using sorted_sort_key [of k xs] assms by simp
  have m: "set xs = set (y # ys)" using set_sort [of k xs] assms by simp
  from s m show ?thesis by auto
qed

lemma findLatestFeatureId_None:
  "findLatestFeatureId db name kind = None \<longleftrightarrow>
     (\<forall>f\<in>set (features db). \<not> (f_feature f = name \<and> f_type f = kind))"
proof -
  let ?xs = "filter (\<lambda>f. f_feature f = name \<and> f_type f = kind) (features db)"
  have "findLatestFeatureId db name kind = None \<longleftrightarrow> sort_key (\<lambda>f. - f_version f) ?xs = []"
    by (simp add: findLatestFeatureId_def split: list.splits)
  also have "\<dots> \<longleftrightarrow> ?xs = []"
    using length_sort [of "\<lambda>f. - f_version f" ?xs] by (auto simp del: length_sort)
  also have "\<dots> \<longleftrightarrow> (\<forall>f\<in>set (features db). \<not> (f_feature f = name \<and> f_type f = kind))"
    by (simp add: filter_empty_conv)
  finally show ?thesis .
qed

lemma findLatestFeatureId_Some:
  assumes "findLatestFeatureId db name kind = Some i"
  shows "\<exists>f\<in>set (features db). f_id f = i \<and> f_feature f = name \<and> f_type f = kind \<and>
           (\<forall>g\<in>set (features db). f_feature g = name \<and> f_type g = kind \<longrightarrow> f_version g \<le> f_version f)"
proof -
  let ?xs = "filter (\<lambda>f. f_feature f = name \<and> f_type f = kind) (features db)"
  from assms obtain f fs where s: "sort_key (\<lambda>f. - f_version f) ?xs = f # fs" and i: "f_id f = i"
    by (auto simp: findLatestFeatureId_def split: list.splits)
  from sort_key_hd_min [OF s] have "f \<in> set ?xs" and "\<forall>x\<in>set ?xs. f_version x \<le> f_version f"
    by auto
  with i show ?thesis by auto
qed


lemma switchUserQuota_eq:
  "switchUserQuota now u q reason exp db =
     (if hasQuota db u q then (db, Inr ())
      else case findLatestFeatureId db q Quota of
             None \<Rightarrow> (db, Inl (QuotaNotFound q))
           | Some i \<Rightarrow>
               if i = 0 then (db, Inl (QuotaNotFound q))
               else (userFeature_create now u i (case reason of None \<Rightarrow> ''switch quota'' | Some s \<Rightarrow> s)
                       True exp
                       (userFeature_deactivateMany
                          (\<lambda>r. uf_userId r = u \<and> feature_is (\<lambda>f. f_type f = Quota) db r) db),
                     Inr ()))"
  by (simp add: switchUserQuota_def transaction_def switchUserQuota_body_def Let_def
           split: option.splits)

lemma switchUserQuota_features [simp]:
  "features (fst (switchUserQuota now u q reason exp db)) = features db"
  by (simp add: switchUserQuota_eq userFeature_create_def userFeature_deactivateMany_def
           split: option.splits)

lemma switchUserQuota_userFeatures:
  "userFeatures (fst (switchUserQuota now u q reason exp db)) = userFeatures db \<or>
   (\<exists>i new. findLatestFeatureId db q Quota = Some i \<and> i \<noteq> 0 \<and> \<not> hasQuota db u q \<and>
      snd (switchUserQuota now u q reason exp db) = Inr () \<and>
      new = \<lparr>uf_id = userFeatureSeq db, uf_userId = u, uf_featureId = i,
             uf_reason = (case reason of None \<Rightarrow> ''switch quota'' | Some s \<Rightarrow> s),
             uf_createdAt = now, uf_expiredAt = exp, uf_activated = True\<rparr> \<and>
      userFeatures (fst (switchUserQuota now u q reason exp db)) =
        map (deactivateQuota u db) (userFeatures db) @ [new])"
  by (auto simp: switchUserQuota_eq userFeature_create_def userFeature_deactivateMany_def
                 deactivateQuota_def fun_eq_iff
           split: option.splits)

lemma active_after_deactivate:
  "filter (\<lambda>r. uf_userId r = a \<and> uf_activated r \<and> feature_is P db r)
          (map (deactivateQuota u db) rs) =
   (if a = u then filter (\<lambda>r. uf_userId r = a \<and> uf_activated r \<and> feature_is P db r \<and>
                               \<not> feature_is (\<lambda>f. f_type f = Quota) db r) rs
    else filter (\<lambda>r. uf_userId r = a \<and> uf_activated r \<and> feature_is P db r) rs)"
  by (induction rs) (auto simp: deactivateQuota_def)

lemma switch_preserves_one_active:
  assumes "length (activeQuotaRecords db a) \<le> 1"
  shows "length (activeQuotaRecords (fst (switchUserQuota now u q reason exp db)) a) \<le> 1"
proof -
  let ?db' = "fst (switchUserQuota now u q reason exp db)"
  have fi: "\<And>P r. feature_is P ?db' r = feature_is P db r"
    by (rule feature_is_cong) simp
  from switchUserQuota_userFeatures [of now u q reason exp db]
  show ?thesis
  proof (elim disjE exE conjE)
    assume "userFeatures ?db' = userFeatures db"
    with assms fi show ?thesis by (simp add: activeQuotaRecords_def)
  next
    fix i new
    assume new: "new = \<lparr>uf_id = userFeatureSeq db, uf_userId = u, uf_featureId = i,
             uf_reason = (case reason of None \<Rightarrow> ''switch quota'' | Some s \<Rightarrow> s),
             uf_createdAt = now, uf_expiredAt = exp, uf_activated = True\<rparr>"
      and ufs: "userFeatures ?db' = map (deactivateQuota u db) (userFeatures db) @ [new]"
    show ?thesis
    proof (cases "a = u")
      case True
      have "filter (\<lambda>r. uf_userId r = u \<and> uf_activated r \<and> feature_is (\<lambda>f. f_type f = Quota) db r \<and>
                               \<not> feature_is (\<lambda>f. f_type f = Quota) db r) (userFeatures db) = []"
        by (simp add: filter_empty_conv)
      with True ufs fi show ?thesis
        by (simp add: activeQuotaRecords_def active_after_deactivate)
    next
      case False
      with ufs fi assms new show ?thesis
        by (simp add: activeQuotaRecords_def active_after_deactivate)
    qed
  qed
qed

lemma run_switches_one_active:
  assumes "\<And>a. length (activeQuotaRecords db a) \<le> 1"
  shows "length (activeQuotaRecords (run_switches calls db) a) \<le> 1"
  using assms
proof (induction calls arbitrary: db a)
  case Nil
  then show ?case by (simp add: run_switches_def)
next
  case (Cons c calls)
  obtain now u q reason exp where c: "c = (now, u, q, reason, exp)" by (cases c) auto
  have "\<And>a. length (activeQuotaRecords (run_switch db c) a) \<le> 1"
    unfolding c run_switch.simps by (rule switch_preserves_one_active) (rule Cons.prems)
  from Cons.IH [OF this] show ?case by (simp add: run_switches_def)
qed

lemma run_switches_features [simp]: "features (run_switches calls db) = features db"
proof (induction calls arbitrary: db)
  case Nil
  show ?case by (simp add: run_switches_def)
next
  case (Cons c calls)
  obtain now u q reason exp where c: "c = (now, u, q, reason, exp)" by (cases c) auto
  from Cons.IH [of "run_switch db c"] show ?case by (simp add: run_switches_def c)
qed

lemma switch_effect_step:
  assumes "distinct (map f_id (features db))"
  shows "switch_effect u db (fst (switchUserQuota now u q reason exp db))"
proof -
  let ?db' = "fst (switchUserQuota now u q reason exp db)"
  show ?thesis
  proof (cases "hasQuota db u q")
    case True
    then show ?thesis by (simp add: switchUserQuota_eq switch_effect_def)
  next
    case nq: False
    show ?thesis
    proof (cases "findLatestFeatureId db q Quota")
      case None
      with nq show ?thesis by (simp add: switchUserQuota_eq switch_effect_def)
    next
      case (Some i)
      show ?thesis
      proof (cases "i = 0")
        case True
        with nq Some show ?thesis by (simp add: switchUserQuota_eq switch_effect_def)
      next
        case False
        from findLatestFeatureId_Some [OF Some] obtain f where
          f: "f \<in> set (features db)" "f_id f = i" "f_type f = Quota" by blast
        have k: "\<And>r. uf_featureId r = i \<Longrightarrow> feature_is (\<lambda>f. f_type f = Quota) db r"
          using f by (auto simp: feature_is_iff [OF assms])
        from nq Some False show ?thesis
          by (auto simp: switchUserQuota_eq switch_effect_def userFeature_create_def
                userFeature_deactivateMany_def deactivateQuota_def fun_eq_iff k)
      qed
    qed
  qed
qed

lemma hasQuota_imp_definition:
  "hasQuota db u q \<Longrightarrow> \<exists>f\<in>set (features db). f_feature f = q \<and> f_type f = Quota"
proof -
  assume "hasQuota db u q"
  then obtain r where "feature_is (\<lambda>f. f_feature f = q \<and> f_type f = Quota) db r"
    by (auto simp: hasQuota_def filter_empty_conv)
  from feature_is_imp_ex [OF this] show ?thesis by blast
qed

lemma feature_kind_exclusive:
  "feature_is (\<lambda>f. f_type f = Feature) db r \<Longrightarrow> \<not> feature_is (\<lambda>f. f_type f = Quota) db r"
  by (auto simp: feature_is_def split: option.splits)

lemma hasQuota_after_switch:
  assumes d: "distinct (map f_id (features db))"
    and i: "findLatestFeatureId db q Quota = Some i" "i \<noteq> 0"
    and n: "\<not> hasQuota db u q"
  shows "hasQuota (fst (switchUserQuota now u q reason exp db)) u q"
proof -
  let ?db' = "fst (switchUserQuota now u q reason exp db)"
  from findLatestFeatureId_Some [OF i(1)] obtain f where
    f: "f \<in> set (features db)" "f_id f = i" "f_feature f = q" "f_type f = Quota" by blast
  have fi: "\<And>P r. feature_is P ?db' r = feature_is P db r"
    by (rule feature_is_cong) simp
  have new: "\<And>r. uf_featureId r = i \<Longrightarrow>
               feature_is (\<lambda>f. f_feature f = q \<and> f_type f = Quota) db r"
    using f by (auto simp: feature_is_iff [OF d])
  from switchUserQuota_userFeatures [of now u q reason exp db] i n
  obtain new where
    "new = \<lparr>uf_id = userFeatureSeq db, uf_userId = u, uf_featureId = i,
             uf_reason = (case reason of None \<Rightarrow> ''switch quota'' | Some s \<Rightarrow> s),
             uf_createdAt = now, uf_expiredAt = exp, uf_activated = True\<rparr>"
    "userFeatures ?db' = map (deactivateQuota u db) (userFeatures db) @ [new]"
    by (auto simp: switchUserQuota_eq userFeature_create_def userFeature_deactivateMany_def
                   deactivateQuota_def fun_eq_iff)
  then show ?thesis
    by (simp add: hasQuota_def fi new)
qed

lemma map_the_filter_Some:
  "map the (filter (\<lambda>x. x \<noteq> None) (map (\<lambda>r. case g r of Inr d \<Rightarrow> Some (h r d) | Inl e \<Rightarrow> None) xs)) =
   map (\<lambda>r. h r (projr (g r))) (filter (\<lambda>r. \<not> isl (g r)) xs)"
  by (induction xs) (auto split: sum.splits)

lemma findFirst_unordered_Some:
  "rows \<noteq> [] \<Longrightarrow> \<exists>r\<in>set rows. findFirst_unordered choice rows = Some r"
  by (simp add: findFirst_unordered_def)

subsection \<open>The loop of addUserFeatures\<close>

lemma sort_key_Nil_iff: "sort_key k xs = [] \<longleftrightarrow> xs = []"
  using length_sort [of k xs] by (auto simp del: length_sort)

lemma findLatestFlag_None:
  "findLatestFlag db u n = None \<longleftrightarrow> activeFeatureRecords db u n = []"
proof -
  let ?xs = "filter (\<lambda>r. uf_userId r = u
                  \<and> feature_is (\<lambda>f. f_feature f = n \<and> f_type f = Feature) db r
                  \<and> uf_activated r) (userFeatures db)"
  have "findLatestFlag db u n = None \<longleftrightarrow> sort_key (\<lambda>r. - uf_createdAt r) ?xs = []"
    by (simp add: findLatestFlag_def split: list.splits)
  also have "\<dots> \<longleftrightarrow> ?xs = []"
    by (rule sort_key_Nil_iff)
  also have "\<dots> \<longleftrightarrow> activeFeatureRecords db u n = []"
    by (auto simp: activeFeatureRecords_def featureRecords_def filter_empty_conv)
  finally show ?thesis .
qed

lemma loop_skip:
  "activeFeatureRecords db u m \<noteq> [] \<Longrightarrow>
     addUserFeatures_loop now u (m # rest) db = addUserFeatures_loop now u rest db"
  using findLatestFlag_None [of db u m] by (auto split: option.splits)

lemma loop_grant:
  "activeFeatureRecords db u m = [] \<Longrightarrow>
     addUserFeatures_loop now u (m # rest) db =
       (case findLatestFeatureId db m Feature of
          None \<Rightarrow> (db, Inl (FeatureNotFound m))
        | Some i \<Rightarrow> if i = 0 then (db, Inl (FeatureNotFound m))
                    else addUserFeatures_loop now u rest
                           (userFeature_create now u i ''sign up'' True None db))"
  using findLatestFlag_None [of db u m] by (auto split: option.splits)

declare addUserFeatures_loop.simps(2) [simp del]

lemma create_features [simp]:
  "features (userFeature_create now u i reason a exp db) = features db"
  by (simp add: userFeature_create_def)

lemma create_userFeatures:
  "userFeatures (userFeature_create now u i reason a exp db) =
     userFeatures db @ [\<lparr>uf_id = userFeatureSeq db, uf_userId = u, uf_featureId = i,
                         uf_reason = reason, uf_createdAt = now, uf_expiredAt = exp,
                         uf_activated = a\<rparr>]"
  by (simp add: userFeature_create_def)

lemma featureRecords_create:
  assumes "distinct (map f_id (features db))"
    and "f \<in> set (features db)" "f_id f = i" "f_feature f = m" "f_type f = Feature"
  shows "featureRecords (userFeature_create now u i reason a exp db) u' n =
           featureRecords db u' n @
           (if u' = u \<and> n = m
            then [\<lparr>uf_id = userFeatureSeq db, uf_userId = u, uf_featureId = i,
                   uf_reason = reason, uf_createdAt = now, uf_expiredAt = exp,
                   uf_activated = a\<rparr>]
            else [])"
proof -
  let ?db' = "userFeature_create now u i reason a exp db"
  have fi: "\<And>P r. feature_is P ?db' r = feature_is P db r"
    by (rule feature_is_cong) simp
  have new: "\<And>P r. uf_featureId r = i \<Longrightarrow> feature_is P db r = P f"
    using find_by_id [OF assms(1,2)] assms(3) by (simp add: feature_is_def feature_of_def)
  show ?thesis
    using assms(4,5) by (auto simp: featureRecords_def create_userFeatures fi new)
qed

lemma activeFeatureRecords_mono:
  "activeFeatureRecords db u n \<noteq> [] \<Longrightarrow>
   activeFeatureRecords (userFeature_create now u' i reason a exp db) u n \<noteq> []"
proof -
  let ?db' = "userFeature_create now u' i reason a exp db"
  have fi: "\<And>P r. feature_is P ?db' r = feature_is P db r"
    by (rule feature_is_cong) simp
  show "activeFeatureRecords db u n \<noteq> [] \<Longrightarrow> activeFeatureRecords ?db' u n \<noteq> []"
    by (auto simp: activeFeatureRecords_def featureRecords_def create_userFeatures fi
                   filter_empty_conv)
qed

lemma loop_features [simp]:
  "features (fst (addUserFeatures_loop now u names db)) = features db"
proof (induction names arbitrary: db)
  case Nil
  show ?case by simp
next
  case (Cons m rest)
  show ?case
  proof (cases "activeFeatureRecords db u m = []")
    case False
    then show ?thesis using Cons.IH by (simp add: loop_skip)
  next
    case True
    then show ?thesis using Cons.IH
      by (auto simp: loop_grant split: option.splits)
  qed
qed

lemma loop_skips_granted:
  assumes "\<And>n. A n \<Longrightarrow> activeFeatureRecords db u n \<noteq> []"
  shows "addUserFeatures_loop now u names db =
         addUserFeatures_loop now u (filter (\<lambda>n. \<not> A n) names) db"
  using assms
proof (induction names arbitrary: db)
  case Nil
  show ?case by simp
next
  case (Cons m rest)
  show ?case
  proof (cases "activeFeatureRecords db u m = []")
    case False
    then have "addUserFeatures_loop now u (m # rest) db =
               addUserFeatures_loop now u (filter (\<lambda>n. \<not> A n) rest) db"
      using Cons.IH [OF Cons.prems] by (simp add: loop_skip)
    moreover have "addUserFeatures_loop now u (filter (\<lambda>n. \<not> A n) (m # rest)) db =
                   addUserFeatures_loop now u (filter (\<lambda>n. \<not> A n) rest) db"
      using False by (simp add: loop_skip)
    ultimately show ?thesis by simp
  next
    case True
    then have nA: "\<not> A m" using Cons.prems by blast
    have step: "\<And>i. addUserFeatures_loop now u rest
                       (userFeature_create now u i ''sign up'' True None db) =
                     addUserFeatures_loop now u (filter (\<lambda>n. \<not> A n) rest)
                       (userFeature_create now u i ''sign up'' True None db)"
      by (rule Cons.IH) (rule activeFeatureRecords_mono, rule Cons.prems)
    show ?thesis using True nA step
      by (simp add: loop_grant split: option.splits)
  qed
qed

lemma loop_success_all_active:
  assumes "distinct (map f_id (features db))"
    and "snd (addUserFeatures_loop now u names db) = Inr ()"
  shows "\<forall>n\<in>set names. activeFeatureRecords (fst (addUserFeatures_loop now u names db)) u n \<noteq> []"
  using assms
proof (induction names arbitrary: db)
  case Nil
  show ?case by simp
next
  case (Cons m rest)
  have keep: "\<And>d n. activeFeatureRecords d u n \<noteq> [] \<Longrightarrow>
                 activeFeatureRecords (fst (addUserFeatures_loop now u rest d)) u n \<noteq> []"
  proof -
    fix d n show "activeFeatureRecords d u n \<noteq> [] \<Longrightarrow>
                 activeFeatureRecords (fst (addUserFeatures_loop now u rest d)) u n \<noteq> []"
    proof (induction rest arbitrary: d)
      case Nil
      then show ?case by simp
    next
      case (Cons k ks)
      show ?case
      proof (cases "activeFeatureRecords d u k = []")
        case False
        then show ?thesis using Cons by (simp add: loop_skip)
      next
        case True
        then show ?thesis using Cons activeFeatureRecords_mono
          by (auto simp: loop_grant split: option.splits)
      qed
    qed
  qed
  show ?case
  proof (cases "activeFeatureRecords db u m = []")
    case False
    then have eq: "addUserFeatures_loop now u (m # rest) db = addUserFeatures_loop now u rest db"
      by (simp add: loop_skip)
    with Cons have "\<forall>n\<in>set rest. activeFeatureRecords (fst (addUserFeatures_loop now u rest db)) u n \<noteq> []"
      by simp
    moreover from keep [OF False]
    have "activeFeatureRecords (fst (addUserFeatures_loop now u rest db)) u m \<noteq> []" .
    ultimately show ?thesis by (simp add: eq)
  next
    case True
    with Cons.prems(2) obtain i where i: "findLatestFeatureId db m Feature = Some i" "i \<noteq> 0"
      by (auto simp: loop_grant split: option.splits if_splits)
    let ?db1 = "userFeature_create now u i ''sign up'' True None db"
    have eq: "addUserFeatures_loop now u (m # rest) db = addUserFeatures_loop now u rest ?db1"
      using True i by (simp add: loop_grant)
    from findLatestFeatureId_Some [OF i(1)] obtain f where
      f: "f \<in> set (features db)" "f_id f = i" "f_feature f = m" "f_type f = Feature" by blast
    have "activeFeatureRecords ?db1 u m \<noteq> []"
      by (simp add: activeFeatureRecords_def featureRecords_create [OF Cons.prems(1) f])
    from keep [OF this]
    have m: "activeFeatureRecords (fst (addUserFeatures_loop now u rest ?db1)) u m \<noteq> []" .
    have "\<forall>n\<in>set rest. activeFeatureRecords (fst (addUserFeatures_loop now u rest ?db1)) u n \<noteq> []"
      using Cons.prems eq by (intro Cons.IH) simp_all
    with m show ?thesis by (simp add: eq)
  qed
qed

lemma loop_counts:
  assumes "distinct (map f_id (features db))"
    and "snd (addUserFeatures_loop now u names db) = Inr ()"
  shows "length (featureRecords (fst (addUserFeatures_loop now u names db)) u n) =
           length (featureRecords db u n) +
           (if n \<in> set names \<and> activeFeatureRecords db u n = [] then 1 else 0)
       \<and> length (activeFeatureRecords (fst (addUserFeatures_loop now u names db)) u n) =
           length (activeFeatureRecords db u n) +
           (if n \<in> set names \<and> activeFeatureRecords db u n = [] then 1 else 0)"
  using assms
proof (induction names arbitrary: db)
  case Nil
  show ?case by simp
next
  case (Cons m rest)
  show ?case
  proof (cases "activeFeatureRecords db u m = []")
    case False
    then have eq: "addUserFeatures_loop now u (m # rest) db = addUserFeatures_loop now u rest db"
      by (simp add: loop_skip)
    from Cons.IH [OF Cons.prems(1)] Cons.prems(2) eq False show ?thesis
      by (cases "n = m") auto
  next
    case True
    with Cons.prems(2) obtain i where i: "findLatestFeatureId db m Feature = Some i" "i \<noteq> 0"
      by (auto simp: loop_grant split: option.splits if_splits)
    let ?db1 = "userFeature_create now u i ''sign up'' True None db"
    let ?db' = "fst (addUserFeatures_loop now u rest ?db1)"
    have eq: "addUserFeatures_loop now u (m # rest) db = addUserFeatures_loop now u rest ?db1"
      using True i by (simp add: loop_grant)
    from findLatestFeatureId_Some [OF i(1)] obtain f where
      f: "f \<in> set (features db)" "f_id f = i" "f_feature f = m" "f_type f = Feature" by blast
    note fr = featureRecords_create [OF Cons.prems(1) f, of now u "''sign up''" True None]
    have ih: "length (featureRecords ?db' u n) =
                length (featureRecords ?db1 u n) +
                (if n \<in> set rest \<and> activeFeatureRecords ?db1 u n = [] then 1 else 0)
            \<and> length (activeFeatureRecords ?db' u n) =
                length (activeFeatureRecords ?db1 u n) +
                (if n \<in> set rest \<and> activeFeatureRecords ?db1 u n = [] then 1 else 0)"
      using Cons.prems eq by (intro Cons.IH) simp_all
    show ?thesis
    proof (cases "n = m")
      case nm: True
      have a1: "activeFeatureRecords ?db1 u n \<noteq> []"
        by (simp add: activeFeatureRecords_def fr nm)
      have l1: "length (featureRecords ?db1 u n) = length (featureRecords db u n) + 1"
        by (simp add: fr nm)
      have l2: "length (activeFeatureRecords ?db1 u n) = length (activeFeatureRecords db u n) + 1"
        by (simp add: activeFeatureRecords_def fr nm)
      from ih a1 l1 l2 nm True show ?thesis unfolding eq by simp
    next
      case nm: False
      have l1: "featureRecords ?db1 u n = featureRecords db u n"
        using nm by (simp add: fr)
      then have l2: "activeFeatureRecords ?db1 u n = activeFeatureRecords db u n"
        by (simp add: activeFeatureRecords_def)
      from ih nm show ?thesis unfolding eq l1 l2 by simp
    qed
  qed
qed

lemma addUserFeatures_eq:
  "addUserFeatures now u names db =
     (case snd (addUserFeatures_loop now u names db) of
        Inl e \<Rightarrow> (db, Inl e)
      | Inr v \<Rightarrow> (fst (addUserFeatures_loop now u names db), Inr v))"
  by (simp add: addUserFeatures_def transaction_def split: prod.splits sum.splits)

lemma loop_appends:
  assumes "distinct (map f_id (features db))"
  shows "\<exists>added. userFeatures (fst (addUserFeatures_loop now u names db)) = userFeatures db @ added
           \<and> list_all (grantedRow db u names) added"
  using assms
proof (induction names arbitrary: db)
  case Nil
  show ?case by simp
next
  case (Cons m rest)
  have weaken: "\<And>d rs. features d = features db \<Longrightarrow> list_all (grantedRow d u rest) rs \<Longrightarrow>
                  list_all (grantedRow db u (m # rest)) rs"
    by (auto simp: list_all_iff grantedRow_def feature_is_def feature_of_def split: option.splits)
  show ?case
  proof (cases "activeFeatureRecords db u m = []")
    case False
    from Cons.IH [OF Cons.prems] obtain added where
      a: "userFeatures (fst (addUserFeatures_loop now u rest db)) = userFeatures db @ added"
         "list_all (grantedRow db u rest) added" by blast
    from a(2) have "list_all (grantedRow db u (m # rest)) added" by (rule weaken [OF refl])
    with a(1) False show ?thesis by (auto simp: loop_skip)
  next
    case True
    show ?thesis
    proof (cases "findLatestFeatureId db m Feature")
      case None
      with True show ?thesis by (simp add: loop_grant)
    next
      case (Some i)
      show ?thesis
      proof (cases "i = 0")
        case z: True
        with True Some show ?thesis by (simp add: loop_grant)
      next
        case nz: False
        let ?db1 = "userFeature_create now u i ''sign up'' True None db"
        let ?new = "\<lparr>uf_id = userFeatureSeq db, uf_userId = u, uf_featureId = i,
                      uf_reason = ''sign up'', uf_createdAt = now, uf_expiredAt = None,
                      uf_activated = True\<rparr>"
        have eq: "addUserFeatures_loop now u (m # rest) db = addUserFeatures_loop now u rest ?db1"
          using True Some nz by (simp add: loop_grant)
        from findLatestFeatureId_Some [OF Some] obtain f where
          f: "f \<in> set (features db)" "f_id f = i" "f_feature f = m" "f_type f = Feature" by blast
        have d1: "distinct (map f_id (features ?db1))" using Cons.prems by simp
        from Cons.IH [OF d1] obtain added where
          a: "userFeatures (fst (addUserFeatures_loop now u rest ?db1)) = userFeatures ?db1 @ added"
             "list_all (grantedRow ?db1 u rest) added" by blast
        have "list_all (grantedRow db u (m # rest)) added"
          by (rule weaken [OF _ a(2)]) simp
        moreover have "grantedRow db u (m # rest) ?new"
          using f by (auto simp: grantedRow_def feature_is_iff [OF Cons.prems])
        ultimately have "list_all (grantedRow db u (m # rest)) (?new # added)" by simp
        moreover have "userFeatures (fst (addUserFeatures_loop now u (m # rest) db)) =
                         userFeatures db @ (?new # added)"
          by (simp add: eq a(1) create_userFeatures)
        ultimately show ?thesis by blast
      qed
    qed
  qed
qed

lemma addUserFeatures_appends:
  assumes "distinct (map f_id (features db))"
  shows "\<exists>added. userFeatures (fst (addUserFeatures now u names db)) = userFeatures db @ added
           \<and> list_all (grantedRow db u names) added"
proof (cases "snd (addUserFeatures_loop now u names db)")
  case (Inl e)
  then show ?thesis by (simp add: addUserFeatures_eq)
next
  case (Inr v)
  with loop_appends [OF assms, of now u names] show ?thesis by (simp add: addUserFeatures_eq)
qed

subsection \<open>A switch from Personal to Team\<close>

lemma switchUserQuota_unregistered:
  assumes "\<forall>f\<in>set (features db). \<not> (f_feature f = q \<and> f_type f = Quota)"
  shows "switchUserQuota now u q reason exp db = (db, Inl (QuotaNotFound q))"
proof -
  from assms have "\<not> hasQuota db u q" using hasQuota_imp_definition by blast
  moreover from assms have "findLatestFeatureId db q Quota = None"
    by (simp add: findLatestFeatureId_None)
  ultimately show ?thesis by (simp add: switchUserQuota_eq)
qed

lemma catalog_rows_no_quota:
  assumes "catalog_rows mb gb day db"
  shows "\<forall>f\<in>set (features db). f_type f = Feature"
proof
  fix f assume "f \<in> set (features db)"
  with assms obtain c where "c \<in> set (Features mb gb day)" "cf_type c = f_type f"
    by (auto simp: catalog_rows_def list_all_iff list_ex_iff)
  then show "f_type f = Feature"
    by (auto simp: Features_def)
qed

lemma filter_singletonD:
  "filter P xs = [p] \<Longrightarrow> r \<in> set xs \<Longrightarrow> P r \<Longrightarrow> r = p"
proof -
  assume a: "filter P xs = [p]" "r \<in> set xs" "P r"
  from a(2,3) have "r \<in> set (filter P xs)" by simp
  then show "r = p" unfolding a(1) by simp
qed

lemma filter_deactivateQuota:
  "filter (\<lambda>r. uf_userId r = a \<and> feature_is Q db r) (map (deactivateQuota u db) rs) =
   map (deactivateQuota u db) (filter (\<lambda>r. uf_userId r = a \<and> feature_is Q db r) rs)"
  by (induction rs) (simp_all add: deactivateQuota_def)

lemma switch_scenario:
  fixes get :: "database \<Rightarrow> int \<Rightarrow> error + feature_row"
    and db :: database and now :: int and acct :: string and t :: feature_row
  assumes d: "distinct (map f_id (features db))"
    and t: "filter (\<lambda>f. f_feature f = FeatureType_TeamWorkspace \<and> f_type f = Quota) (features db) = [t]"
    and tz: "f_id t \<noteq> 0"
    and p: "filter (\<lambda>r. uf_userId r = acct) (userFeatures db) = [p]"
    and pa: "uf_activated p"
    and pq: "feature_is (\<lambda>f. f_feature f = FeatureType_PersonalWorkspace \<and> f_type f = Quota) db p"
    and pid: "uf_id p < userFeatureSeq db"
    and qt: "FeatureType_TeamWorkspace \<in> set QuotaType"
    and res: "\<forall>d f. features d = features db \<and> f \<in> set (features db) \<and> f_type f = Quota
                \<longrightarrow> get d (f_id f) = Inr f"
  defines "db' \<equiv> fst (switchUserQuota now acct FeatureType_TeamWorkspace (Some ''upgrade'') None db)"
  defines "new \<equiv> \<lparr>uf_id = userFeatureSeq db, uf_userId = acct, uf_featureId = f_id t,
                   uf_reason = ''upgrade'', uf_createdAt = now, uf_expiredAt = None,
                   uf_activated = True\<rparr>"
  shows "snd (switchUserQuota now acct FeatureType_TeamWorkspace (Some ''upgrade'') None db) = Inr ()"
    and "getUserQuota QuotaType get choice db' acct = Inr (quota_of new t)"
    and "\<exists>pf. getUserQuotas get db' acct =
           [quota_entry_of (p\<lparr>uf_activated := False\<rparr>) pf, quota_entry_of new t]"
proof -
  have "t \<in> set (filter (\<lambda>f. f_feature f = FeatureType_TeamWorkspace \<and> f_type f = Quota)
                    (features db))"
    unfolding t by simp
  then have tin: "t \<in> set (features db)" "f_feature t = FeatureType_TeamWorkspace"
      "f_type t = Quota"
    by auto
  have "p \<in> set (filter (\<lambda>r. uf_userId r = acct) (userFeatures db))"
    unfolding p by simp
  then have pin: "p \<in> set (userFeatures db)" "uf_userId p = acct"
    by auto
  have only: "\<And>r. r \<in> set (userFeatures db) \<Longrightarrow> uf_userId r = acct \<Longrightarrow> r = p"
    using filter_singletonD [OF p] by blast
  from pq obtain pf where pf: "feature_of db p = Some pf"
      "f_feature pf = FeatureType_PersonalWorkspace" "f_type pf = Quota"
    by (auto simp: feature_is_def split: option.splits)
  then have pfin: "pf \<in> set (features db)" "f_id pf = uf_featureId p"
    by (auto simp: feature_of_def find_Some_iff)
  have pk: "feature_is (\<lambda>f. f_type f = Quota) db p"
    using pf by (simp add: feature_is_def)
  have pnt: "\<not> feature_is (\<lambda>f. f_feature f = FeatureType_TeamWorkspace \<and> f_type f = Quota) db p"
    using pf by (simp add: feature_is_def)
  have nh: "\<not> hasQuota db acct FeatureType_TeamWorkspace"
  proof -
    have "filter (\<lambda>r. uf_userId r = acct
                     \<and> feature_is (\<lambda>f. f_feature f = FeatureType_TeamWorkspace \<and> f_type f = Quota) db r
                     \<and> uf_activated r) (userFeatures db) = []"
      using only pnt by (auto simp: filter_empty_conv)
    then show ?thesis by (simp add: hasQuota_def)
  qed
  have lat: "findLatestFeatureId db FeatureType_TeamWorkspace Quota = Some (f_id t)"
    by (simp add: findLatestFeatureId_def t)
  have sw: "switchUserQuota now acct FeatureType_TeamWorkspace (Some ''upgrade'') None db =
              (userFeature_create now acct (f_id t) ''upgrade'' True None
                 (userFeature_deactivateMany
                    (\<lambda>r. uf_userId r = acct \<and> feature_is (\<lambda>f. f_type f = Quota) db r) db),
               Inr ())"
    using nh lat tz by (simp add: switchUserQuota_eq)
  show "snd (switchUserQuota now acct FeatureType_TeamWorkspace (Some ''upgrade'') None db) = Inr ()"
    by (simp add: sw)
  have f': "features db' = features db"
    by (simp add: db'_def)
  have fi: "\<And>P r. feature_is P db' r = feature_is P db r"
    by (rule feature_is_cong) (rule f')
  have ufs: "userFeatures db' = map (deactivateQuota acct db) (userFeatures db) @ [new]"
    by (simp add: db'_def sw new_def userFeature_create_def userFeature_deactivateMany_def
          deactivateQuota_def [abs_def])
  have nsel: "uf_userId new = acct" "uf_activated new" "uf_featureId new = f_id t"
      "uf_reason new = ''upgrade''" "uf_createdAt new = now" "uf_expiredAt new = None"
      "uf_id new = userFeatureSeq db"
    by (simp_all add: new_def)
  have newf: "\<And>P. feature_is P db new = P t"
    using find_by_id [OF d tin(1)] by (simp add: feature_is_def feature_of_def nsel)
  have dp: "deactivateQuota acct db p = p\<lparr>uf_activated := False\<rparr>"
    using pin pk by (simp add: deactivateQuota_def)
  \<comment> \<open>the active quota\<close>
  have none: "filter (\<lambda>r. uf_userId r = acct
                      \<and> feature_is (\<lambda>f. f_feature f \<in> set QuotaType) db r
                      \<and> uf_activated r) (map (deactivateQuota acct db) (userFeatures db)) = []"
  proof -
    have "\<And>r. r \<in> set (userFeatures db) \<Longrightarrow>
            \<not> (uf_userId (deactivateQuota acct db r) = acct
               \<and> uf_activated (deactivateQuota acct db r))"
    proof -
      fix r assume r: "r \<in> set (userFeatures db)"
      show "\<not> (uf_userId (deactivateQuota acct db r) = acct
               \<and> uf_activated (deactivateQuota acct db r))"
      proof (cases "uf_userId r = acct")
        case True
        with only [OF r] have "r = p" by simp
        then show ?thesis by (simp add: dp)
      next
        case False
        then show ?thesis by (simp add: deactivateQuota_def)
      qed
    qed
    then show ?thesis by (auto simp: filter_empty_conv)
  qed
  have gq: "get db' (f_id t) = Inr t"
    using res [rule_format, of db' t] f' tin by simp
  show "getUserQuota QuotaType get choice db' acct = Inr (quota_of new t)"
    using qt tin(2)
    by (simp add: getUserQuota_def findFirst_unordered_def ufs fi none newf nsel gq quota_of_def)
  \<comment> \<open>the history\<close>
  have "filter (\<lambda>r. uf_userId r = acct \<and> feature_is (\<lambda>f. f_type f = Quota) db r)
          (userFeatures db) =
        filter (\<lambda>r. feature_is (\<lambda>f. f_type f = Quota) db r)
          (filter (\<lambda>r. uf_userId r = acct) (userFeatures db))"
    by (simp only: filter_filter)
  also have "\<dots> = [p]" using pk by (simp add: p)
  finally have hist: "filter (\<lambda>r. uf_userId r = acct \<and> feature_is (\<lambda>f. f_type f = Quota) db r)
          (userFeatures db) = [p]" .
  have "filter (\<lambda>r. uf_userId r = acct \<and> feature_is (\<lambda>f. f_type f = Quota) db r)
          (map (deactivateQuota acct db) (userFeatures db)) =
        map (deactivateQuota acct db)
          (filter (\<lambda>r. uf_userId r = acct \<and> feature_is (\<lambda>f. f_type f = Quota) db r)
             (userFeatures db))"
    by (rule filter_deactivateQuota)
  then have rows: "filter (\<lambda>r. uf_userId r = acct \<and> feature_is (\<lambda>f. f_type f = Quota) db' r)
                     (userFeatures db') = [p\<lparr>uf_activated := False\<rparr>, new]"
    using tin(3) by (simp add: ufs fi hist dp newf nsel)
  have gp: "get db' (uf_featureId p) = Inr pf"
    using res [rule_format, of db' pf] f' pfin pf(3) by simp
  have gn: "get db' (uf_featureId new) = Inr t"
    using gq by (simp add: nsel)
  have "getUserQuotas get db' acct =
           [quota_entry_of (p\<lparr>uf_activated := False\<rparr>) pf, quota_entry_of new t]"
    using pid by (simp add: getUserQuotas_def rows gp gn quota_entry_of_def nsel(7))
  then show "\<exists>pf. getUserQuotas get db' acct =
           [quota_entry_of (p\<lparr>uf_activated := False\<rparr>) pf, quota_entry_of new t]"
    by blast
qed


lemma QuotaConfig_get_resolves:
  assumes "distinct (map f_id (features d))" "f \<in> set (features d)" "f_type f = Quota"
  shows "QuotaConfig_get d (f_id f) = Inr f"
proof -
  have "find (\<lambda>g. f_id g = f_id f \<and> f_type g = Quota) fs = Some f"
    if "distinct (map f_id fs)" "f \<in> set fs" for fs
    using that assms(3) by (induction fs) (auto simp: rev_image_eqI)
  from this [OF assms(1,2)] show ?thesis by (simp add: QuotaConfig_get_def)
qed

subsection \<open>Store calls that reject\<close>

lemma switchUserQuota_faulty_None:
  "switchUserQuota_faulty None now u q reason exp db = switchUserQuota now u q reason exp db"
proof -
  have "switchUserQuota_body_faulty None now u q reason exp db =
        switchUserQuota_body now u q reason exp db"
    by (simp add: switchUserQuota_body_faulty_def switchUserQuota_body_def Let_def
          split: option.splits)
  then show ?thesis
    by (simp add: switchUserQuota_faulty_def switchUserQuota_def transaction_def)
qed

lemma switchUserQuota_body_faulty_success:
  "snd (switchUserQuota_body_faulty fault now u q reason exp db) = Inr () \<Longrightarrow>
   switchUserQuota_body_faulty fault now u q reason exp db =
     switchUserQuota_body now u q reason exp db"
  by (simp add: switchUserQuota_body_faulty_def switchUserQuota_body_def Let_def
        split: option.splits if_splits)

lemma transaction_cases:
  "transaction body db =
     (case snd (body db) of Inl e \<Rightarrow> (db, Inl e) | Inr v \<Rightarrow> (fst (body db), Inr v))"
  by (simp add: transaction_def split: prod.splits sum.splits)

lemma switchUserQuota_faulty_success:
  assumes "snd (switchUserQuota_faulty fault now u q reason exp db) = Inr ()"
  shows "switchUserQuota_faulty fault now u q reason exp db =
           switchUserQuota now u q reason exp db"
proof -
  from assms have "snd (switchUserQuota_body_faulty fault now u q reason exp db) = Inr ()"
    by (simp add: switchUserQuota_faulty_def transaction_cases split: sum.splits)
  from switchUserQuota_body_faulty_success [OF this] show ?thesis
    by (simp add: switchUserQuota_faulty_def switchUserQuota_def transaction_def)
qed

lemma loop_faulty_success:
  "snd (addUserFeatures_loop_faulty fault k now u names db) = Inr () \<Longrightarrow>
   addUserFeatures_loop_faulty fault k now u names db = addUserFeatures_loop now u names db"
proof (induction names arbitrary: k db)
  case Nil
  show ?case by simp
next
  case (Cons m rest)
  from Cons.prems have nf: "fault \<noteq> Some k"
    by (auto split: if_splits)
  show ?case
  proof (cases "findLatestFlag db u m")
    case (Some flag)
    with Cons.prems nf have "snd (addUserFeatures_loop_faulty fault (k + 1) now u rest db) = Inr ()"
      by simp
    from Cons.IH [OF this] Some nf show ?thesis
      by (simp add: addUserFeatures_loop.simps(2))
  next
    case None
    with Cons.prems nf obtain i where i: "fault \<noteq> Some (k + 1)"
        "findLatestFeatureId db m Feature = Some i" "i \<noteq> 0" "fault \<noteq> Some (k + 2)"
        "snd (addUserFeatures_loop_faulty fault (k + 3) now u rest
                (userFeature_create now u i ''sign up'' True None db)) = Inr ()"
      by (auto split: if_splits option.splits)
    from Cons.IH [OF i(5)] None nf i(1-4) show ?thesis
      by (simp add: addUserFeatures_loop.simps(2))
  qed
qed

lemma addUserFeatures_faulty_success:
  assumes "snd (addUserFeatures_faulty fault now u names db) = Inr ()"
  shows "addUserFeatures_faulty fault now u names db = addUserFeatures now u names db"
proof -
  from assms have "snd (addUserFeatures_loop_faulty fault 0 now u names db) = Inr ()"
    by (simp add: addUserFeatures_faulty_def transaction_cases split: sum.splits)
  from loop_faulty_success [OF this] show ?thesis
    by (simp add: addUserFeatures_faulty_def addUserFeatures_def transaction_def)
qed

lemma loop_faulty_None:
  "addUserFeatures_loop_faulty None k now u names db = addUserFeatures_loop now u names db"
  by (induction names arbitrary: k db)
     (simp_all add: addUserFeatures_loop.simps(2) split: option.splits)

lemma addUserFeatures_faulty_None:
  "addUserFeatures_faulty None now u names db = addUserFeatures now u names db"
  by (simp add: addUserFeatures_faulty_def addUserFeatures_def transaction_def loop_faulty_None)

subsection \<open>At most one active quota\<close>

text \<open>
  C1. Along every sequence of \<^verbatim>\<open>switchUserQuota\<close> calls that starts in a database with
  at most one active Quota-kind activation record per account (definition ids being
  unique, as a primary key is), every account has at most one active Quota-kind record
  after each call. And each call, in each of these states, either leaves the database
  as it is or deactivates every Quota-kind record of the account and appends exactly
  one new record, active, of the account and of Quota kind.
\<close>

theorem switchUserQuota_one_active_quota:
  assumes "distinct (map f_id (features db))"
    and "\<forall>a. length (activeQuotaRecords db a) \<le> 1"
  shows "(\<forall>k\<le>length calls. \<forall>a.
            length (activeQuotaRecords (run_switches (take k calls) db) a) \<le> 1)
       \<and> (\<forall>now u q reason exp. \<forall>k\<le>length calls.
            switch_effect u (run_switches (take k calls) db)
              (fst (switchUserQuota now u q reason exp (run_switches (take k calls) db))))"
proof (intro conjI allI impI)
  fix k a
  show "length (activeQuotaRecords (run_switches (take k calls) db) a) \<le> 1"
    using assms(2) by (intro run_switches_one_active) simp
next
  fix now u q reason exp k
  have "distinct (map f_id (features (run_switches (take k calls) db)))"
    using assms(1) by simp
  then show "switch_effect u (run_switches (take k calls) db)
              (fst (switchUserQuota now u q reason exp (run_switches (take k calls) db)))"
    by (rule switch_effect_step)
qed

theorem switchUserQuota_one_active_quota_witness:
  "distinct (map f_id (features quota_database))
   \<and> (\<forall>a. length (activeQuotaRecords quota_database a) \<le> 1)
   \<and> length (activeQuotaRecords
        (run_switches [(10, ''u1'', FeatureType_PersonalWorkspace, None, None),
                       (20, ''u1'', FeatureType_TeamWorkspace, Some ''upgrade'', None)]
           quota_database) ''u1'') \<le> 1
   \<and> map uf_activated (userFeatures
        (run_switches [(10, ''u1'', FeatureType_PersonalWorkspace, None, None),
                       (20, ''u1'', FeatureType_TeamWorkspace, Some ''upgrade'', None)]
           quota_database)) = [False, True]"
proof -
  let ?calls = "[(10::int, ''u1'', FeatureType_PersonalWorkspace, None::string option, None::int option),
                 (20::int, ''u1'', FeatureType_TeamWorkspace, Some ''upgrade'', None::int option)]"
  have d: "distinct (map f_id (features quota_database))"
    by (simp add: quota_database_def)
  have i: "\<forall>a. length (activeQuotaRecords quota_database a) \<le> 1"
    by (simp add: activeQuotaRecords_def quota_database_def)
  have "\<forall>k\<le>length ?calls. \<forall>a.
          length (activeQuotaRecords (run_switches (take k ?calls) quota_database) a) \<le> 1"
    using switchUserQuota_one_active_quota [OF d i, of ?calls] by (rule conjunct1)
  from this [rule_format, of 2 "''u1''"]
  have one: "length (activeQuotaRecords (run_switches ?calls quota_database) ''u1'') \<le> 1"
    by simp
  have run: "map uf_activated (userFeatures (run_switches ?calls quota_database)) = [False, True]"
    by code_simp
  from d i one run show ?thesis by simp
qed

subsection \<open>The upgrade scenario\<close>

text \<open>
  C2, as the code has it. In a database whose definition rows are entries of the
  compiled-in catalog, the Personal and Team workspace definitions are of Feature kind
  and \<^verbatim>\<open>switchUserQuota(acct, Team, "upgrade")\<close> fails with the not-found error, the
  database unchanged. The scenario holds where Team is registered as a definition of
  Quota kind: with one such row, whose \<^verbatim>\<open>storageQuota\<close> is 100 GB, an account whose one
  activation record is an active Personal quota, \<^verbatim>\<open>QuotaType\<close> naming Team, and a
  resolver that returns the Quota-kind definition stored under an id, the call
  succeeds; then \<^verbatim>\<open>getUserQuota\<close>, for every choice of the store among the matching
  rows, returns Team with \<^verbatim>\<open>storageQuota\<close> 100 GB, and \<^verbatim>\<open>getUserQuotas\<close> has length 2
  with the earlier (Personal) record first, not activated.
\<close>

theorem switchUserQuota_team_upgrade:
  fixes get :: "database \<Rightarrow> int \<Rightarrow> error + feature_row"
  shows
  "(catalog_rows OneMB OneGB OneDay db \<longrightarrow>
      switchUserQuota now acct FeatureType_TeamWorkspace (Some ''upgrade'') None db =
        (db, Inl (QuotaNotFound FeatureType_TeamWorkspace)))
   \<and> (distinct (map f_id (features db))
      \<and> filter (\<lambda>f. f_feature f = FeatureType_TeamWorkspace \<and> f_type f = Quota) (features db) = [t]
      \<and> f_id t \<noteq> 0
      \<and> json_field (f_configs t) ''storageQuota'' = Some (JNum (100 * OneGB))
      \<and> filter (\<lambda>r. uf_userId r = acct) (userFeatures db) = [p]
      \<and> uf_activated p
      \<and> feature_is (\<lambda>f. f_feature f = FeatureType_PersonalWorkspace \<and> f_type f = Quota) db p
      \<and> uf_id p < userFeatureSeq db
      \<and> FeatureType_TeamWorkspace \<in> set QuotaType
      \<and> (\<forall>d f. features d = features db \<and> f \<in> set (features db) \<and> f_type f = Quota
                \<longrightarrow> get d (f_id f) = Inr f)
      \<longrightarrow>
        snd (switchUserQuota now acct FeatureType_TeamWorkspace (Some ''upgrade'') None db) = Inr ()
      \<and> (\<exists>q. getUserQuota QuotaType get choice
                (fst (switchUserQuota now acct FeatureType_TeamWorkspace (Some ''upgrade'') None db))
                acct = Inr q
             \<and> f_feature (uq_feature q) = FeatureType_TeamWorkspace
             \<and> json_field (f_configs (uq_feature q)) ''storageQuota'' = Some (JNum (100 * OneGB)))
      \<and> length (getUserQuotas get
                  (fst (switchUserQuota now acct FeatureType_TeamWorkspace (Some ''upgrade'') None db))
                  acct) = 2
      \<and> \<not> qe_activated (hd (getUserQuotas get
                  (fst (switchUserQuota now acct FeatureType_TeamWorkspace (Some ''upgrade'') None db))
                  acct))
      \<and> qe_featureId (hd (getUserQuotas get
                  (fst (switchUserQuota now acct FeatureType_TeamWorkspace (Some ''upgrade'') None db))
                  acct)) = uf_featureId p)"
proof (intro conjI impI)
  assume "catalog_rows OneMB OneGB OneDay db"
  from catalog_rows_no_quota [OF this]
  have "\<forall>f\<in>set (features db). \<not> (f_feature f = FeatureType_TeamWorkspace \<and> f_type f = Quota)"
    by simp
  then show "switchUserQuota now acct FeatureType_TeamWorkspace (Some ''upgrade'') None db =
        (db, Inl (QuotaNotFound FeatureType_TeamWorkspace))"
    by (rule switchUserQuota_unregistered)
next
  let ?db' = "fst (switchUserQuota now acct FeatureType_TeamWorkspace (Some ''upgrade'') None db)"
  let ?new = "\<lparr>uf_id = userFeatureSeq db, uf_userId = acct, uf_featureId = f_id t,
                   uf_reason = ''upgrade'', uf_createdAt = now, uf_expiredAt = None,
                   uf_activated = True\<rparr>"
  assume h: "distinct (map f_id (features db))
      \<and> filter (\<lambda>f. f_feature f = FeatureType_TeamWorkspace \<and> f_type f = Quota) (features db) = [t]
      \<and> f_id t \<noteq> 0
      \<and> json_field (f_configs t) ''storageQuota'' = Some (JNum (100 * OneGB))
      \<and> filter (\<lambda>r. uf_userId r = acct) (userFeatures db) = [p]
      \<and> uf_activated p
      \<and> feature_is (\<lambda>f. f_feature f = FeatureType_PersonalWorkspace \<and> f_type f = Quota) db p
      \<and> uf_id p < userFeatureSeq db
      \<and> FeatureType_TeamWorkspace \<in> set QuotaType
      \<and> (\<forall>d f. features d = features db \<and> f \<in> set (features db) \<and> f_type f = Quota
                \<longrightarrow> get d (f_id f) = Inr f)"
  then have d: "distinct (map f_id (features db))"
    and t: "filter (\<lambda>f. f_feature f = FeatureType_TeamWorkspace \<and> f_type f = Quota) (features db) = [t]"
    and tz: "f_id t \<noteq> 0"
    and sq: "json_field (f_configs t) ''storageQuota'' = Some (JNum (100 * OneGB))"
    and p: "filter (\<lambda>r. uf_userId r = acct) (userFeatures db) = [p]"
    and pa: "uf_activated p"
    and pq: "feature_is (\<lambda>f. f_feature f = FeatureType_PersonalWorkspace \<and> f_type f = Quota) db p"
    and pid: "uf_id p < userFeatureSeq db"
    and qt: "FeatureType_TeamWorkspace \<in> set QuotaType"
    and res: "\<forall>d f. features d = features db \<and> f \<in> set (features db) \<and> f_type f = Quota
                \<longrightarrow> get d (f_id f) = Inr f"
    by blast+
  note sc = switch_scenario [OF d t tz p pa pq pid qt res]
  have "t \<in> set (filter (\<lambda>f. f_feature f = FeatureType_TeamWorkspace \<and> f_type f = Quota)
                    (features db))"
    unfolding t by simp
  then have tn: "f_feature t = FeatureType_TeamWorkspace" by simp
  show "snd (switchUserQuota now acct FeatureType_TeamWorkspace (Some ''upgrade'') None db) = Inr ()"
    by (rule sc(1))
  show "\<exists>q. getUserQuota QuotaType get choice ?db' acct = Inr q
             \<and> f_feature (uq_feature q) = FeatureType_TeamWorkspace
             \<and> json_field (f_configs (uq_feature q)) ''storageQuota'' = Some (JNum (100 * OneGB))"
    using sc(2) tn sq by (simp add: quota_of_def)
  from sc(3) obtain pf where
    g: "getUserQuotas get ?db' acct =
          [quota_entry_of (p\<lparr>uf_activated := False\<rparr>) pf, quota_entry_of ?new t]"
    by blast
  show "length (getUserQuotas get ?db' acct) = 2"
    by (simp add: g)
  show "\<not> qe_activated (hd (getUserQuotas get ?db' acct))"
    by (simp add: g quota_entry_of_def)
  show "qe_featureId (hd (getUserQuotas get ?db' acct)) = uf_featureId p"
    by (simp add: g quota_entry_of_def)
qed

theorem switchUserQuota_team_upgrade_witness:
  "catalog_rows 1048576 1073741824 86400000 seeded_database
   \<and> switchUserQuota 2 ''u1'' FeatureType_TeamWorkspace (Some ''upgrade'') None seeded_database =
       (seeded_database, Inl (QuotaNotFound FeatureType_TeamWorkspace))
   \<and> map (\<lambda>r. (uf_userId r, uf_featureId r, uf_activated r)) (userFeatures personal_database) =
       [(''u1'', 1, True)]
   \<and> snd (switchUserQuota 2 ''u1'' FeatureType_TeamWorkspace (Some ''upgrade'') None
            personal_database) = Inr ()
   \<and> length (getUserQuotas QuotaConfig_get
        (fst (switchUserQuota 2 ''u1'' FeatureType_TeamWorkspace (Some ''upgrade'') None
                personal_database)) ''u1'') = 2
   \<and> map (\<lambda>e. (qe_activated e, f_feature (qe_feature e)))
        (getUserQuotas QuotaConfig_get
          (fst (switchUserQuota 2 ''u1'' FeatureType_TeamWorkspace (Some ''upgrade'') None
                  personal_database)) ''u1'') =
       [(False, FeatureType_PersonalWorkspace), (True, FeatureType_TeamWorkspace)]
   \<and> map_sum id (\<lambda>q. (f_feature (uq_feature q), json_field (f_configs (uq_feature q)) ''storageQuota''))
        (getUserQuota [FeatureType_PersonalWorkspace, FeatureType_TeamWorkspace] QuotaConfig_get length
          (fst (switchUserQuota 2 ''u1'' FeatureType_TeamWorkspace (Some ''upgrade'') None
                  personal_database)) ''u1'') =
       Inr (FeatureType_TeamWorkspace, Some (JNum 107374182400))"
proof -
  let ?t = "features personal_database ! 1"
  let ?p = "hd (userFeatures personal_database)"
  let ?QT = "[FeatureType_PersonalWorkspace, FeatureType_TeamWorkspace]"
  have c: "catalog_rows 1048576 1073741824 86400000 seeded_database"
    by code_simp
  from switchUserQuota_team_upgrade
         [of 1048576 1073741824 86400000 seeded_database 2 "''u1''"] c
  have i: "switchUserQuota 2 ''u1'' FeatureType_TeamWorkspace (Some ''upgrade'') None seeded_database =
       (seeded_database, Inl (QuotaNotFound FeatureType_TeamWorkspace))"
    by blast
  have d: "distinct (map f_id (features personal_database))"
    by code_simp
  have h1: "filter (\<lambda>f. f_feature f = FeatureType_TeamWorkspace \<and> f_type f = Quota)
              (features personal_database) = [?t]"
    by code_simp
  have h2: "f_id ?t \<noteq> 0"
    by code_simp
  have h3: "json_field (f_configs ?t) ''storageQuota'' = Some (JNum (100 * 1073741824))"
    by code_simp
  have h4: "filter (\<lambda>r. uf_userId r = ''u1'') (userFeatures personal_database) = [?p]"
    by code_simp
  have h5: "uf_activated ?p"
    by code_simp
  have h6: "feature_is (\<lambda>f. f_feature f = FeatureType_PersonalWorkspace \<and> f_type f = Quota)
              personal_database ?p"
    by code_simp
  have h7: "uf_id ?p < userFeatureSeq personal_database"
    by code_simp
  have h8: "FeatureType_TeamWorkspace \<in> set ?QT"
    by simp
  have h9: "\<forall>d f. features d = features personal_database \<and> f \<in> set (features personal_database)
                     \<and> f_type f = Quota \<longrightarrow> QuotaConfig_get d (f_id f) = Inr f"
    using d by (auto intro: QuotaConfig_get_resolves)
  from switchUserQuota_team_upgrade
         [of 1048576 1073741824 86400000 personal_database 2 "''u1''" ?t ?p ?QT QuotaConfig_get
           length]
       d h1 h2 h3 h4 h5 h6 h7 h8 h9
  have ok: "snd (switchUserQuota 2 ''u1'' FeatureType_TeamWorkspace (Some ''upgrade'') None
            personal_database) = Inr ()"
    and len: "length (getUserQuotas QuotaConfig_get
        (fst (switchUserQuota 2 ''u1'' FeatureType_TeamWorkspace (Some ''upgrade'') None
                personal_database)) ''u1'') = 2"
    by blast+
  have b: "map (\<lambda>r. (uf_userId r, uf_featureId r, uf_activated r)) (userFeatures personal_database) =
       [(''u1'', 1, True)]"
    by code_simp
  have hist: "map (\<lambda>e. (qe_activated e, f_feature (qe_feature e)))
        (getUserQuotas QuotaConfig_get
          (fst (switchUserQuota 2 ''u1'' FeatureType_TeamWorkspace (Some ''upgrade'') None
                  personal_database)) ''u1'') =
       [(False, FeatureType_PersonalWorkspace), (True, FeatureType_TeamWorkspace)]"
    by code_simp
  have act: "map_sum id (\<lambda>q. (f_feature (uq_feature q), json_field (f_configs (uq_feature q)) ''storageQuota''))
        (getUserQuota ?QT QuotaConfig_get length
          (fst (switchUserQuota 2 ''u1'' FeatureType_TeamWorkspace (Some ''upgrade'') None
                  personal_database)) ''u1'') =
       Inr (FeatureType_TeamWorkspace, Some (JNum 107374182400))"
    by code_simp
  from c i b ok len hist act show ?thesis by blast
qed

text \<open>
  C2 as stated fails on the compiled-in catalog. An account created by \<^verbatim>\<open>fulfillUser\<close>
  in the group \<open>User\<close> on the seeded database has one active record, the Personal
  workspace (definition 8, of Feature kind, as Team, definition 9, is); the switch to
  Team fails with the not-found error and the activation table is as before.
\<close>

theorem switchUserQuota_team_upgrade_counterexample:
  "catalog_rows 1048576 1073741824 86400000 signed_up_database
   \<and> map (\<lambda>r. (uf_userId r, uf_featureId r, uf_activated r)) (userFeatures signed_up_database) =
       [(''user-'', 8, True)]
   \<and> map (\<lambda>f. (f_id f, f_feature f, f_type f, f_version f))
        (filter (\<lambda>f. f_id f = 8 \<or> f_id f = 9) (features signed_up_database)) =
       [(8, FeatureType_PersonalWorkspace, Feature, 1), (9, FeatureType_TeamWorkspace, Feature, 1)]
   \<and> snd (switchUserQuota 2 ''user-'' FeatureType_TeamWorkspace (Some ''upgrade'') None
            signed_up_database) = Inl (QuotaNotFound FeatureType_TeamWorkspace)
   \<and> userFeatures (fst (switchUserQuota 2 ''user-'' FeatureType_TeamWorkspace (Some ''upgrade'') None
            signed_up_database)) = userFeatures signed_up_database"
  by code_simp

subsection \<open>Repeating a switch\<close>

text \<open>
  C3, as the code has it. The claim holds for a quota name that has a definition row
  of Quota kind (ids being unique and not 0): the call succeeds, the quota is active
  for the account afterwards, a second call with the same quota returns without
  changing the database, and the two calls together insert one record if the quota
  was not active before and none if it was.
\<close>

theorem switchUserQuota_repeat_is_noop:
  assumes "distinct (map f_id (features db))"
    and "\<exists>f\<in>set (features db). f_feature f = q \<and> f_type f = Quota"
    and "\<forall>f\<in>set (features db). f_id f \<noteq> 0"
  shows "snd (switchUserQuota now u q reason exp db) = Inr ()
       \<and> hasQuota (fst (switchUserQuota now u q reason exp db)) u q
       \<and> switchUserQuota now' u q reason' exp' (fst (switchUserQuota now u q reason exp db)) =
           (fst (switchUserQuota now u q reason exp db), Inr ())
       \<and> length (userFeatures (fst (switchUserQuota now u q reason exp db))) =
           length (userFeatures db) + (if hasQuota db u q then 0 else 1)"
proof -
  let ?db' = "fst (switchUserQuota now u q reason exp db)"
  from assms(2) have "findLatestFeatureId db q Quota \<noteq> None"
    by (simp add: findLatestFeatureId_None)
  then obtain i where i: "findLatestFeatureId db q Quota = Some i" by blast
  from findLatestFeatureId_Some [OF i] assms(3) have nz: "i \<noteq> 0" by blast
  have ok: "snd (switchUserQuota now u q reason exp db) = Inr ()"
    using i nz by (simp add: switchUserQuota_eq)
  have has: "hasQuota ?db' u q"
  proof (cases "hasQuota db u q")
    case True
    then show ?thesis by (simp add: switchUserQuota_eq)
  next
    case False
    from hasQuota_after_switch [OF assms(1) i nz False] show ?thesis .
  qed
  from has have again: "switchUserQuota now' u q reason' exp' ?db' = (?db', Inr ())"
    by (simp add: switchUserQuota_eq [of now' u q reason' exp' ?db'])
  have len: "length (userFeatures ?db') =
               length (userFeatures db) + (if hasQuota db u q then 0 else 1)"
    using i nz
    by (simp add: switchUserQuota_eq userFeature_create_def userFeature_deactivateMany_def)
  from ok has again len show ?thesis by blast
qed

theorem switchUserQuota_repeat_is_noop_witness:
  "distinct (map f_id (features quota_database))
   \<and> (\<exists>f\<in>set (features quota_database). f_feature f = FeatureType_TeamWorkspace \<and> f_type f = Quota)
   \<and> 0 \<notin> set (map f_id (features quota_database))
   \<and> hasQuota (fst (switchUserQuota 1 ''u1'' FeatureType_TeamWorkspace None None quota_database))
        ''u1'' FeatureType_TeamWorkspace
   \<and> map uf_featureId (userFeatures
        (fst (switchUserQuota 2 ''u1'' FeatureType_TeamWorkspace None None
           (fst (switchUserQuota 1 ''u1'' FeatureType_TeamWorkspace None None quota_database)))))
      = [2]"
proof -
  have d: "distinct (map f_id (features quota_database))"
    by (simp add: quota_database_def)
  have x: "\<exists>f\<in>set (features quota_database). f_feature f = FeatureType_TeamWorkspace \<and> f_type f = Quota"
    by (simp add: quota_database_def)
  have z: "\<forall>f\<in>set (features quota_database). f_id f \<noteq> 0"
    by (simp add: quota_database_def)
  then have z': "0 \<notin> set (map f_id (features quota_database))" by auto
  have one: "map uf_featureId (userFeatures
        (fst (switchUserQuota 1 ''u1'' FeatureType_TeamWorkspace None None quota_database))) = [2]"
    by code_simp
  from switchUserQuota_repeat_is_noop [OF d x z, of 1 "''u1''" None None 2 None None]
  have "hasQuota (fst (switchUserQuota 1 ''u1'' FeatureType_TeamWorkspace None None quota_database))
          ''u1'' FeatureType_TeamWorkspace"
    and "switchUserQuota 2 ''u1'' FeatureType_TeamWorkspace None None
           (fst (switchUserQuota 1 ''u1'' FeatureType_TeamWorkspace None None quota_database)) =
         (fst (switchUserQuota 1 ''u1'' FeatureType_TeamWorkspace None None quota_database), Inr ())"
    by blast+
  with d x z' one show ?thesis by simp
qed

text \<open>
  C3 as stated, for every quota name, fails for a name without such a row. The compiled-in catalog registers no
  definition of Quota kind: on the seeded database both calls fail with the not-found
  error, no record is inserted, and \<^verbatim>\<open>hasQuota\<close> is false after either call.
\<close>

theorem switchUserQuota_twice_counterexample:
  "snd (switchUserQuota 1 ''u1'' FeatureType_TeamWorkspace None None seeded_database) =
     Inl (QuotaNotFound FeatureType_TeamWorkspace)
   \<and> userFeatures (fst (switchUserQuota 2 ''u1'' FeatureType_TeamWorkspace None None
        (fst (switchUserQuota 1 ''u1'' FeatureType_TeamWorkspace None None seeded_database)))) =
      userFeatures seeded_database
   \<and> \<not> hasQuota (fst (switchUserQuota 1 ''u1'' FeatureType_TeamWorkspace None None seeded_database))
         ''u1'' FeatureType_TeamWorkspace
   \<and> \<not> hasQuota (fst (switchUserQuota 2 ''u1'' FeatureType_TeamWorkspace None None
        (fst (switchUserQuota 1 ''u1'' FeatureType_TeamWorkspace None None seeded_database))))
         ''u1'' FeatureType_TeamWorkspace"
  by code_simp

subsection \<open>The active quota of an account\<close>

text \<open>
  C4, as the code has it. \<^verbatim>\<open>getUserQuota\<close> looks for an active record whose definition
  is named by \<^verbatim>\<open>QuotaType\<close>, not for one of Quota kind. In a database where the
  definitions named by \<^verbatim>\<open>QuotaType\<close> are exactly those of Quota kind the two agree,
  and then: for an account with no active Quota-kind record the call fails with the
  "has no quota" error, and no default is returned; for an account whose active
  Quota-kind record is \<open>r\<close> the result is \<open>r\<close> with the definition the resolver returns
  for its \<^verbatim>\<open>featureId\<close>, or the resolver's error; with several such records it is one
  of them, by the store's choice; and the call returns when the resolver returns for
  every active Quota-kind record of the account.
\<close>

theorem getUserQuota_active_quota_record:
  assumes "\<forall>f\<in>set (features db). (f_feature f \<in> set QuotaType) = (f_type f = Quota)"
  shows "(activeQuotaRecords db u = [] \<longrightarrow>
            getUserQuota QuotaType get choice db u = Inl (UserHasNoQuota u))
       \<and> (\<forall>r. activeQuotaRecords db u = [r] \<longrightarrow>
            getUserQuota QuotaType get choice db u =
              (case get db (uf_featureId r) of
                 Inl e \<Rightarrow> Inl e
               | Inr d \<Rightarrow> Inr (quota_of r d)))
       \<and> (activeQuotaRecords db u \<noteq> [] \<longrightarrow>
            (\<exists>r\<in>set (activeQuotaRecords db u).
               getUserQuota QuotaType get choice db u =
                 (case get db (uf_featureId r) of
                    Inl e \<Rightarrow> Inl e
                  | Inr d \<Rightarrow> Inr (quota_of r d))))
       \<and> (activeQuotaRecords db u \<noteq> []
            \<and> (\<forall>r\<in>set (activeQuotaRecords db u). \<not> isl (get db (uf_featureId r))) \<longrightarrow>
            \<not> isl (getUserQuota QuotaType get choice db u))"
proof -
  let ?rows = "filter (\<lambda>r. uf_userId r = u
                          \<and> feature_is (\<lambda>f. f_feature f \<in> set QuotaType) db r
                          \<and> uf_activated r) (userFeatures db)"
  have same: "feature_is (\<lambda>f. f_feature f \<in> set QuotaType) db r =
              feature_is (\<lambda>f. f_type f = Quota) db r" for r
  proof (cases "feature_of db r")
    case None
    then show ?thesis by (simp add: feature_is_def)
  next
    case (Some f)
    then have "f \<in> set (features db)"
      by (auto simp: feature_of_def find_Some_iff)
    with assms Some show ?thesis by (simp add: feature_is_def)
  qed
  have rows: "?rows = activeQuotaRecords db u"
    unfolding activeQuotaRecords_def same
    by (rule filter_cong) auto
  have pick: "?rows \<noteq> [] \<Longrightarrow>
                \<exists>r\<in>set ?rows. findFirst_unordered choice ?rows = Some r"
    by (rule findFirst_unordered_Some)
  have res: "findFirst_unordered choice ?rows = Some r \<Longrightarrow>
               getUserQuota QuotaType get choice db u =
                 (case get db (uf_featureId r) of
                    Inl e \<Rightarrow> Inl e
                  | Inr d \<Rightarrow> Inr (quota_of r d))" for r
    by (simp add: getUserQuota_def quota_of_def split: sum.splits)
  have some: "activeQuotaRecords db u \<noteq> [] \<Longrightarrow>
                \<exists>r\<in>set (activeQuotaRecords db u).
                  getUserQuota QuotaType get choice db u =
                    (case get db (uf_featureId r) of
                       Inl e \<Rightarrow> Inl e
                     | Inr d \<Rightarrow> Inr (quota_of r d))"
    using pick res unfolding rows by blast
  show ?thesis
  proof (intro conjI impI allI)
    assume "activeQuotaRecords db u = []"
    then have "?rows = []" by (simp only: rows)
    then show "getUserQuota QuotaType get choice db u = Inl (UserHasNoQuota u)"
      by (simp add: getUserQuota_def findFirst_unordered_def)
  next
    fix r assume r: "activeQuotaRecords db u = [r]"
    then have "activeQuotaRecords db u \<noteq> []" by simp
    from some [OF this] obtain r' where r': "r' \<in> set (activeQuotaRecords db u)"
      and eq: "getUserQuota QuotaType get choice db u =
                 (case get db (uf_featureId r') of
                    Inl e \<Rightarrow> Inl e
                  | Inr d \<Rightarrow> Inr (quota_of r' d))"
      by blast
    from r' have "r' = r" unfolding r by simp
    with eq show "getUserQuota QuotaType get choice db u =
              (case get db (uf_featureId r) of
                 Inl e \<Rightarrow> Inl e
               | Inr d \<Rightarrow> Inr (quota_of r d))"
      by (simp split: sum.splits)
  next
    assume "activeQuotaRecords db u \<noteq> []"
    then show "\<exists>r\<in>set (activeQuotaRecords db u).
               getUserQuota QuotaType get choice db u =
                 (case get db (uf_featureId r) of
                    Inl e \<Rightarrow> Inl e
                  | Inr d \<Rightarrow> Inr (quota_of r d))"
      by (rule some)
  next
    assume a: "activeQuotaRecords db u \<noteq> []
            \<and> (\<forall>r\<in>set (activeQuotaRecords db u). \<not> isl (get db (uf_featureId r)))"
    with some obtain r where "r \<in> set (activeQuotaRecords db u)"
      "getUserQuota QuotaType get choice db u =
         (case get db (uf_featureId r) of
            Inl e \<Rightarrow> Inl e
          | Inr d \<Rightarrow> Inr (quota_of r d))"
      by blast
    with a show "\<not> isl (getUserQuota QuotaType get choice db u)"
      by (auto split: sum.splits)
  qed
qed

theorem getUserQuota_active_quota_record_witness:
  "list_all (\<lambda>f. (f_feature f \<in> set [FeatureType_PersonalWorkspace, FeatureType_TeamWorkspace])
                   = (f_type f = Quota)) (features granted_database)
   \<and> activeQuotaRecords granted_database ''u2'' = []
   \<and> getUserQuota [FeatureType_PersonalWorkspace, FeatureType_TeamWorkspace] QuotaConfig_get
        length granted_database ''u2'' = Inl (UserHasNoQuota ''u2'')
   \<and> map uf_id (activeQuotaRecords granted_database ''u1'') = [2]
   \<and> map_sum id (\<lambda>q. (uq_reason q, uq_createdAt q, uq_featureId q, f_feature (uq_feature q)))
        (getUserQuota [FeatureType_PersonalWorkspace, FeatureType_TeamWorkspace] QuotaConfig_get
           length granted_database ''u1'') =
      Inr (''sign up'', 2, 1, FeatureType_PersonalWorkspace)"
proof -
  let ?QT = "[FeatureType_PersonalWorkspace, FeatureType_TeamWorkspace]"
  have la: "list_all (\<lambda>f. (f_feature f \<in> set ?QT) = (f_type f = Quota)) (features granted_database)"
    by code_simp
  then have a: "\<forall>f\<in>set (features granted_database). (f_feature f \<in> set ?QT) = (f_type f = Quota)"
    by (simp only: list_all_iff)
  have n: "activeQuotaRecords granted_database ''u2'' = []"
    by code_simp
  from getUserQuota_active_quota_record [OF a, of "''u2''" QuotaConfig_get length] n
  have e: "getUserQuota ?QT QuotaConfig_get length granted_database ''u2'' =
             Inl (UserHasNoQuota ''u2'')"
    by blast
  have one: "activeQuotaRecords granted_database ''u1'' =
               [\<lparr>uf_id = 2, uf_userId = ''u1'', uf_featureId = 1, uf_reason = ''sign up'',
                 uf_createdAt = 2, uf_expiredAt = None, uf_activated = True\<rparr>]"
    by code_simp
  have g: "QuotaConfig_get granted_database 1 = Inr (hd (features granted_database))"
    by code_simp
  have hdn: "f_feature (hd (features granted_database)) = FeatureType_PersonalWorkspace"
    by code_simp
  from getUserQuota_active_quota_record [OF a, of "''u1''" QuotaConfig_get length] one
  have "getUserQuota ?QT QuotaConfig_get length granted_database ''u1'' =
          (case QuotaConfig_get granted_database
                  (uf_featureId \<lparr>uf_id = 2, uf_userId = ''u1'', uf_featureId = 1,
                     uf_reason = ''sign up'', uf_createdAt = 2, uf_expiredAt = None,
                     uf_activated = True\<rparr>) of
             Inl e \<Rightarrow> Inl e
           | Inr d \<Rightarrow> Inr (quota_of \<lparr>uf_id = 2, uf_userId = ''u1'', uf_featureId = 1,
                     uf_reason = ''sign up'', uf_createdAt = 2, uf_expiredAt = None,
                     uf_activated = True\<rparr> d))"
    by blast
  then have v: "map_sum id
        (\<lambda>q. (uq_reason q, uq_createdAt q, uq_featureId q, f_feature (uq_feature q)))
        (getUserQuota ?QT QuotaConfig_get length granted_database ''u1'') =
      Inr (''sign up'', 2, 1, FeatureType_PersonalWorkspace)"
    by (simp add: g hdn quota_of_def)
  from one have ids: "map uf_id (activeQuotaRecords granted_database ''u1'') = [2]"
    by simp
  from la n e ids v show ?thesis by blast
qed

text \<open>
  C4 as stated, for the records of Quota kind, fails where the two notions differ. On
  the seeded database the catalog holds the workspace definitions under the kind
  Feature; with \<^verbatim>\<open>QuotaType\<close> naming them, the account created in the group
  \<open>User\<close> has no active Quota-kind record (and \<^verbatim>\<open>hasQuota\<close> is false), yet the call
  finds the Personal workspace grant: it ends with the resolver's error, or, with a
  resolver that looks up by id only, returns the Feature-kind definition. Neither is
  the "has no quota" error.
\<close>

theorem getUserQuota_named_feature_counterexample:
  "activeQuotaRecords signed_up_database ''user-'' = []
   \<and> \<not> hasQuota signed_up_database ''user-'' FeatureType_PersonalWorkspace
   \<and> getUserQuota [FeatureType_PersonalWorkspace, FeatureType_TeamWorkspace] QuotaConfig_get
        length signed_up_database ''user-'' = Inl (QuotaConfigNotFound 8)
   \<and> map_sum id (\<lambda>q. (uq_reason q, uq_featureId q, f_feature (uq_feature q), f_type (uq_feature q)))
        (getUserQuota [FeatureType_PersonalWorkspace, FeatureType_TeamWorkspace] resolve_by_id
           length signed_up_database ''user-'') =
      Inr (''sign up'', 8, FeatureType_PersonalWorkspace, Feature)"
  by code_simp

text \<open>
  In the other direction, a \<^verbatim>\<open>QuotaType\<close> that does not name a Quota-kind definition
  hides the account's active record of that definition.
\<close>

lemma getUserQuota_unnamed_quota_example:
  "map uf_id (activeQuotaRecords personal_database ''u1'') = [1]
   \<and> getUserQuota [''free_plan_v1'', ''pro_plan_v1''] QuotaConfig_get length
        personal_database ''u1'' = Inl (UserHasNoQuota ''u1'')"
  by code_simp

subsection \<open>The definition a switch resolves\<close>

text \<open>
  C5. When no definition row of Quota kind has the requested name, \<^verbatim>\<open>switchUserQuota\<close>
  fails with the not-found error and the database is as before. When the quota is not
  already active and such rows exist, the call selects one of them whose version is
  the highest among them: the new activation record references its id and is appended
  after the account's Quota-kind records are deactivated (an id 0 counts as not found).
\<close>

theorem switchUserQuota_latest_definition:
  "((\<forall>f\<in>set (features db). \<not> (f_feature f = q \<and> f_type f = Quota)) \<longrightarrow>
      switchUserQuota now u q reason exp db = (db, Inl (QuotaNotFound q)))
   \<and> (\<not> hasQuota db u q \<and> (\<exists>f\<in>set (features db). f_feature f = q \<and> f_type f = Quota) \<longrightarrow>
        (\<exists>f\<in>set (features db). f_feature f = q \<and> f_type f = Quota
           \<and> (\<forall>g\<in>set (features db). f_feature g = q \<and> f_type g = Quota
                  \<longrightarrow> f_version g \<le> f_version f)
           \<and> (if f_id f = 0
               then switchUserQuota now u q reason exp db = (db, Inl (QuotaNotFound q))
               else snd (switchUserQuota now u q reason exp db) = Inr ()
                  \<and> userFeatures (fst (switchUserQuota now u q reason exp db)) =
                      map (deactivateQuota u db) (userFeatures db) @
                      [\<lparr>uf_id = userFeatureSeq db, uf_userId = u, uf_featureId = f_id f,
                        uf_reason = (case reason of None \<Rightarrow> ''switch quota'' | Some s \<Rightarrow> s),
                        uf_createdAt = now, uf_expiredAt = exp, uf_activated = True\<rparr>])))"
proof (intro conjI impI)
  assume none: "\<forall>f\<in>set (features db). \<not> (f_feature f = q \<and> f_type f = Quota)"
  then have "\<not> hasQuota db u q" using hasQuota_imp_definition by blast
  moreover from none have "findLatestFeatureId db q Quota = None"
    by (simp add: findLatestFeatureId_None)
  ultimately show "switchUserQuota now u q reason exp db = (db, Inl (QuotaNotFound q))"
    by (simp add: switchUserQuota_eq)
next
  assume a: "\<not> hasQuota db u q \<and> (\<exists>f\<in>set (features db). f_feature f = q \<and> f_type f = Quota)"
  then have "findLatestFeatureId db q Quota \<noteq> None"
    by (simp add: findLatestFeatureId_None)
  then obtain i where i: "findLatestFeatureId db q Quota = Some i" by blast
  from findLatestFeatureId_Some [OF i] obtain f where
    f: "f \<in> set (features db)" "f_id f = i" "f_feature f = q" "f_type f = Quota"
       "\<forall>g\<in>set (features db). f_feature g = q \<and> f_type g = Quota \<longrightarrow> f_version g \<le> f_version f"
    by blast
  have "if f_id f = 0
        then switchUserQuota now u q reason exp db = (db, Inl (QuotaNotFound q))
        else snd (switchUserQuota now u q reason exp db) = Inr ()
           \<and> userFeatures (fst (switchUserQuota now u q reason exp db)) =
               map (deactivateQuota u db) (userFeatures db) @
               [\<lparr>uf_id = userFeatureSeq db, uf_userId = u, uf_featureId = f_id f,
                 uf_reason = (case reason of None \<Rightarrow> ''switch quota'' | Some s \<Rightarrow> s),
                 uf_createdAt = now, uf_expiredAt = exp, uf_activated = True\<rparr>]"
    using a i f(2)
    by (auto simp: switchUserQuota_eq userFeature_create_def userFeature_deactivateMany_def
          deactivateQuota_def fun_eq_iff)
  with f show "\<exists>f\<in>set (features db). f_feature f = q \<and> f_type f = Quota
           \<and> (\<forall>g\<in>set (features db). f_feature g = q \<and> f_type g = Quota
                  \<longrightarrow> f_version g \<le> f_version f)
           \<and> (if f_id f = 0
               then switchUserQuota now u q reason exp db = (db, Inl (QuotaNotFound q))
               else snd (switchUserQuota now u q reason exp db) = Inr ()
                  \<and> userFeatures (fst (switchUserQuota now u q reason exp db)) =
                      map (deactivateQuota u db) (userFeatures db) @
                      [\<lparr>uf_id = userFeatureSeq db, uf_userId = u, uf_featureId = f_id f,
                        uf_reason = (case reason of None \<Rightarrow> ''switch quota'' | Some s \<Rightarrow> s),
                        uf_createdAt = now, uf_expiredAt = exp, uf_activated = True\<rparr>])"
    by blast
qed

theorem switchUserQuota_latest_definition_witness:
  "filter (\<lambda>f. f_feature f = ''pro_plan'' \<and> f_type f = Quota) (features quota_database) = []
   \<and> switchUserQuota 5 ''u1'' ''pro_plan'' None None quota_database =
       (quota_database, Inl (QuotaNotFound ''pro_plan''))
   \<and> \<not> hasQuota versioned_database ''u1'' FeatureType_TeamWorkspace
   \<and> (\<exists>f\<in>set (features versioned_database).
         f_feature f = FeatureType_TeamWorkspace \<and> f_type f = Quota)
   \<and> map uf_featureId (userFeatures (fst (switchUserQuota 5 ''u1'' FeatureType_TeamWorkspace
         None None versioned_database))) = [6]"
proof -
  have h: "\<forall>f\<in>set (features quota_database). \<not> (f_feature f = ''pro_plan'' \<and> f_type f = Quota)"
    by (simp add: quota_database_def)
  from switchUserQuota_latest_definition [of quota_database "''pro_plan''" 5 "''u1''" None None] h
  have e: "switchUserQuota 5 ''u1'' ''pro_plan'' None None quota_database =
       (quota_database, Inl (QuotaNotFound ''pro_plan''))"
    by blast
  have n: "\<not> hasQuota versioned_database ''u1'' FeatureType_TeamWorkspace"
    by (simp add: hasQuota_def versioned_database_def quota_database_def)
  have x: "\<exists>f\<in>set (features versioned_database).
         f_feature f = FeatureType_TeamWorkspace \<and> f_type f = Quota"
    by (simp add: versioned_database_def quota_database_def)
  have r: "map uf_featureId (userFeatures (fst (switchUserQuota 5 ''u1'' FeatureType_TeamWorkspace
         None None versioned_database))) = [6]"
    by code_simp
  have h': "filter (\<lambda>f. f_feature f = ''pro_plan'' \<and> f_type f = Quota) (features quota_database) = []"
    using h by (simp add: filter_empty_conv)
  from h' e n x r show ?thesis by blast
qed

subsection \<open>The quota history of an account\<close>

text \<open>
  C6. \<^verbatim>\<open>getUserQuotas\<close> returns a list, never an error. Its entries are built from the
  Quota-kind activation rows of the account whose definition the resolver returns,
  each such row once, in ascending order of the row id; every entry pairs the row's
  selected columns with that definition. A row whose resolver call throws has no entry.
\<close>

theorem getUserQuotas_resolved_in_id_order:
  "\<exists>rows. sorted (map uf_id rows)
     \<and> mset rows = mset (filter (\<lambda>r. uf_userId r = u
                                      \<and> feature_is (\<lambda>f. f_type f = Quota) db r
                                      \<and> \<not> isl (get db (uf_featureId r))) (userFeatures db))
     \<and> getUserQuotas get db u =
         map (\<lambda>r. quota_entry_of r (projr (get db (uf_featureId r)))) rows"
proof -
  let ?quotas = "sort_key uf_id
                   (filter (\<lambda>r. uf_userId r = u \<and> feature_is (\<lambda>f. f_type f = Quota) db r)
                      (userFeatures db))"
  let ?rows = "filter (\<lambda>r. \<not> isl (get db (uf_featureId r))) ?quotas"
  have s: "sorted (map uf_id ?rows)"
    by (rule sorted_filter) (rule sorted_sort_key)
  have m: "mset ?rows = mset (filter (\<lambda>r. uf_userId r = u
                                      \<and> feature_is (\<lambda>f. f_type f = Quota) db r
                                      \<and> \<not> isl (get db (uf_featureId r))) (userFeatures db))"
  proof -
    have "mset ?rows =
          mset (filter (\<lambda>r. \<not> isl (get db (uf_featureId r)))
                  (filter (\<lambda>r. uf_userId r = u \<and> feature_is (\<lambda>f. f_type f = Quota) db r)
                     (userFeatures db)))"
      by (simp only: mset_filter mset_sort)
    also have "filter (\<lambda>r. \<not> isl (get db (uf_featureId r)))
                  (filter (\<lambda>r. uf_userId r = u \<and> feature_is (\<lambda>f. f_type f = Quota) db r)
                     (userFeatures db)) =
               filter (\<lambda>r. uf_userId r = u
                                      \<and> feature_is (\<lambda>f. f_type f = Quota) db r
                                      \<and> \<not> isl (get db (uf_featureId r))) (userFeatures db)"
      by (simp only: filter_filter conj_assoc)
    finally show ?thesis .
  qed
  have g: "getUserQuotas get db u =
         map (\<lambda>r. quota_entry_of r (projr (get db (uf_featureId r)))) ?rows"
    unfolding getUserQuotas_def Let_def quota_entry_of_def [abs_def]
    by (rule map_the_filter_Some)
  from s m g show ?thesis by blast
qed

text \<open>
  An example with a resolver that throws for the definition 1: of the two quota rows of
  the account only the later one has an entry.
\<close>

lemma getUserQuotas_omits_unresolved_example:
  "map (\<lambda>e. (qe_activated e, qe_featureId e))
     (getUserQuotas (\<lambda>db i. if i = 1 then Inl (QuotaConfigNotFound i) else QuotaConfig_get db i)
        (fst (switchUserQuota 3 ''u1'' FeatureType_TeamWorkspace (Some ''upgrade'') None
           granted_database)) ''u1'') = [(True, 2)]"
  by code_simp

subsection \<open>Granting features\<close>

text \<open>
  C7. \<^verbatim>\<open>addUserFeatures\<close> is idempotent name by name. The names that already have an
  active Feature-kind record of the account are skipped: the call does what it does on
  the list without them, so a skipped name inserts nothing and does not end the batch.
  After a call that succeeds, a second call with the same names succeeds and changes
  nothing; and a successful call adds, for each name, exactly one record if the name is
  in the list and had no active record, and none otherwise. So two calls with a name
  that had no record leave exactly one record for it.
\<close>

theorem addUserFeatures_per_name_idempotent:
  assumes "distinct (map f_id (features db))"
  shows "addUserFeatures now u names db =
           addUserFeatures now u (filter (\<lambda>n. activeFeatureRecords db u n = []) names) db
       \<and> (snd (addUserFeatures now u names db) = Inr () \<longrightarrow>
            addUserFeatures now' u names (fst (addUserFeatures now u names db)) =
              (fst (addUserFeatures now u names db), Inr ())
          \<and> (\<forall>n. length (featureRecords (fst (addUserFeatures now u names db)) u n) =
                    length (featureRecords db u n) +
                    (if n \<in> set names \<and> activeFeatureRecords db u n = [] then 1 else 0)
                \<and> length (activeFeatureRecords (fst (addUserFeatures now u names db)) u n) =
                    length (activeFeatureRecords db u n) +
                    (if n \<in> set names \<and> activeFeatureRecords db u n = [] then 1 else 0)))"
proof (intro conjI impI allI)
  have "addUserFeatures_loop now u names db =
        addUserFeatures_loop now u
          (filter (\<lambda>n. \<not> activeFeatureRecords db u n \<noteq> []) names) db"
    by (rule loop_skips_granted)
  then have eq: "addUserFeatures_loop now u names db =
        addUserFeatures_loop now u (filter (\<lambda>n. activeFeatureRecords db u n = []) names) db"
    by simp
  show "addUserFeatures now u names db =
           addUserFeatures now u (filter (\<lambda>n. activeFeatureRecords db u n = []) names) db"
    by (simp only: addUserFeatures_def transaction_def eq)
next
  assume ok: "snd (addUserFeatures now u names db) = Inr ()"
  let ?db' = "fst (addUserFeatures_loop now u names db)"
  from ok have l: "snd (addUserFeatures_loop now u names db) = Inr ()"
    by (simp add: addUserFeatures_eq split: sum.splits)
  then have db': "fst (addUserFeatures now u names db) = ?db'"
    by (simp add: addUserFeatures_eq)
  from loop_success_all_active [OF assms l]
  have act: "\<And>n. n \<in> set names \<Longrightarrow> activeFeatureRecords ?db' u n \<noteq> []" by blast
  have "addUserFeatures_loop now' u names ?db' =
        addUserFeatures_loop now' u (filter (\<lambda>n. \<not> n \<in> set names) names) ?db'"
    by (rule loop_skips_granted) (rule act)
  also have "filter (\<lambda>n. \<not> n \<in> set names) names = []"
    by (simp add: filter_empty_conv)
  finally have "addUserFeatures_loop now' u names ?db' = (?db', Inr ())" by simp
  then have "addUserFeatures now' u names ?db' = (?db', Inr ())"
    by (simp add: addUserFeatures_eq)
  then show "addUserFeatures now' u names (fst (addUserFeatures now u names db)) =
              (fst (addUserFeatures now u names db), Inr ())"
    by (simp only: db')
  fix n
  from loop_counts [OF assms l, of n]
  show "length (featureRecords (fst (addUserFeatures now u names db)) u n) =
                    length (featureRecords db u n) +
                    (if n \<in> set names \<and> activeFeatureRecords db u n = [] then 1 else 0)"
    and "length (activeFeatureRecords (fst (addUserFeatures now u names db)) u n) =
                    length (activeFeatureRecords db u n) +
                    (if n \<in> set names \<and> activeFeatureRecords db u n = [] then 1 else 0)"
    by (simp_all only: db')
qed

theorem addUserFeatures_per_name_idempotent_witness:
  "distinct (map f_id (features seeded_database))
   \<and> snd (addUserFeatures 1 ''u1'' [FeatureType_EarlyAccess] seeded_database) = Inr ()
   \<and> length (featureRecords
        (fst (addUserFeatures 2 ''u1'' [FeatureType_EarlyAccess]
           (fst (addUserFeatures 1 ''u1'' [FeatureType_EarlyAccess] seeded_database))))
        ''u1'' FeatureType_EarlyAccess) = 1"
proof -
  have d: "distinct (map f_id (features seeded_database))"
    by code_simp
  have ok: "snd (addUserFeatures 1 ''u1'' [FeatureType_EarlyAccess] seeded_database) = Inr ()"
    by code_simp
  have z: "featureRecords seeded_database ''u1'' FeatureType_EarlyAccess = []"
    by code_simp
  then have za: "activeFeatureRecords seeded_database ''u1'' FeatureType_EarlyAccess = []"
    by (simp add: activeFeatureRecords_def)
  from addUserFeatures_per_name_idempotent
         [OF d, of 1 "''u1''" "[FeatureType_EarlyAccess]" 2] ok
  have two: "addUserFeatures 2 ''u1'' [FeatureType_EarlyAccess]
               (fst (addUserFeatures 1 ''u1'' [FeatureType_EarlyAccess] seeded_database)) =
             (fst (addUserFeatures 1 ''u1'' [FeatureType_EarlyAccess] seeded_database), Inr ())"
    and cnt: "length (featureRecords
                (fst (addUserFeatures 1 ''u1'' [FeatureType_EarlyAccess] seeded_database))
                ''u1'' FeatureType_EarlyAccess) =
              length (featureRecords seeded_database ''u1'' FeatureType_EarlyAccess) +
              (if FeatureType_EarlyAccess \<in> set [FeatureType_EarlyAccess]
                  \<and> activeFeatureRecords seeded_database ''u1'' FeatureType_EarlyAccess = []
               then 1 else 0)"
    by blast+
  from cnt z za have "length (featureRecords
                (fst (addUserFeatures 1 ''u1'' [FeatureType_EarlyAccess] seeded_database))
                ''u1'' FeatureType_EarlyAccess) = 1"
    by simp
  with two d ok show ?thesis by simp
qed

subsection \<open>Failed mutations\<close>

text \<open>
  C8. The two multi-step mutations run inside a transaction, and each call of the
  store inside it may reject. Whichever call rejects, and also when a definition is
  not found: a \<^verbatim>\<open>switchUserQuota\<close> or an \<^verbatim>\<open>addUserFeatures\<close> that fails leaves the database
  exactly as it was before the call, and one that succeeds has done all that the call
  does on a store without failures. So the activation records after a switch are
  those before it, or those with every Quota-kind record of the account deactivated
  and one active record appended; the records are never deactivated with nothing
  inserted, though the callback itself ends in that state when \<^verbatim>\<open>create\<close> rejects.
\<close>

theorem mutation_commits_or_rolls_back:
  "(\<forall>e. snd (switchUserQuota_faulty fault now u q reason exp db) = Inl e \<longrightarrow>
         fst (switchUserQuota_faulty fault now u q reason exp db) = db)
   \<and> (snd (switchUserQuota_faulty fault now u q reason exp db) = Inr () \<longrightarrow>
         switchUserQuota_faulty fault now u q reason exp db =
           switchUserQuota now u q reason exp db)
   \<and> (\<forall>e. snd (addUserFeatures_faulty fault now u names db) = Inl e \<longrightarrow>
         fst (addUserFeatures_faulty fault now u names db) = db)
   \<and> (snd (addUserFeatures_faulty fault now u names db) = Inr () \<longrightarrow>
         addUserFeatures_faulty fault now u names db = addUserFeatures now u names db)
   \<and> (userFeatures (fst (switchUserQuota_faulty fault now u q reason exp db)) = userFeatures db
      \<or> butlast (userFeatures (fst (switchUserQuota_faulty fault now u q reason exp db))) =
          map (deactivateQuota u db) (userFeatures db)
        \<and> length (userFeatures (fst (switchUserQuota_faulty fault now u q reason exp db))) =
          Suc (length (userFeatures db))
        \<and> uf_activated (last (userFeatures (fst (switchUserQuota_faulty fault now u q reason exp db)))))"
proof (intro conjI allI impI)
  fix e assume "snd (switchUserQuota_faulty fault now u q reason exp db) = Inl e"
  then show "fst (switchUserQuota_faulty fault now u q reason exp db) = db"
    by (simp add: switchUserQuota_faulty_def transaction_cases split: sum.splits)
next
  assume "snd (switchUserQuota_faulty fault now u q reason exp db) = Inr ()"
  then show "switchUserQuota_faulty fault now u q reason exp db =
           switchUserQuota now u q reason exp db"
    by (rule switchUserQuota_faulty_success)
next
  fix e assume "snd (addUserFeatures_faulty fault now u names db) = Inl e"
  then show "fst (addUserFeatures_faulty fault now u names db) = db"
    by (simp add: addUserFeatures_faulty_def transaction_cases split: sum.splits)
next
  assume "snd (addUserFeatures_faulty fault now u names db) = Inr ()"
  then show "addUserFeatures_faulty fault now u names db = addUserFeatures now u names db"
    by (rule addUserFeatures_faulty_success)
next
  let ?r = "switchUserQuota_faulty fault now u q reason exp db"
  show "userFeatures (fst ?r) = userFeatures db
      \<or> butlast (userFeatures (fst ?r)) = map (deactivateQuota u db) (userFeatures db)
        \<and> length (userFeatures (fst ?r)) = Suc (length (userFeatures db))
        \<and> uf_activated (last (userFeatures (fst ?r)))"
  proof (cases "snd ?r")
    case (Inl e)
    then have "fst ?r = db"
      by (simp add: switchUserQuota_faulty_def transaction_cases split: sum.splits)
    then show ?thesis by simp
  next
    case (Inr v)
    then have "?r = switchUserQuota now u q reason exp db"
      by (intro switchUserQuota_faulty_success) simp
    with switchUserQuota_userFeatures [of now u q reason exp db] show ?thesis
      by auto
  qed
qed

theorem mutation_commits_or_rolls_back_witness:
  "map (\<lambda>r. (uf_featureId r, uf_activated r)) (userFeatures granted_database) =
     [(3, True), (1, True)]
   \<and> map (\<lambda>r. (uf_featureId r, uf_activated r))
        (userFeatures (fst (switchUserQuota_body_faulty (Some 3) 3 ''u1'' FeatureType_TeamWorkspace
           (Some ''upgrade'') None granted_database))) = [(3, True), (1, False)]
   \<and> snd (switchUserQuota_faulty (Some 3) 3 ''u1'' FeatureType_TeamWorkspace (Some ''upgrade'')
        None granted_database) = Inl StoreFailure
   \<and> fst (switchUserQuota_faulty (Some 3) 3 ''u1'' FeatureType_TeamWorkspace (Some ''upgrade'')
        None granted_database) = granted_database
   \<and> map uf_featureId (userFeatures (fst (addUserFeatures_loop_faulty (Some 5) 0 1 ''u1''
        [FeatureType_Copilot, FeatureType_EarlyAccess] seeded_database))) = [1]
   \<and> snd (addUserFeatures_faulty (Some 5) 1 ''u1''
        [FeatureType_Copilot, FeatureType_EarlyAccess] seeded_database) = Inl StoreFailure
   \<and> fst (addUserFeatures_faulty (Some 5) 1 ''u1''
        [FeatureType_Copilot, FeatureType_EarlyAccess] seeded_database) = seeded_database
   \<and> snd (addUserFeatures_faulty None 1 ''u1'' [FeatureType_Copilot, ''no_such_feature'']
        seeded_database) = Inl (FeatureNotFound ''no_such_feature'')
   \<and> fst (addUserFeatures_faulty None 1 ''u1'' [FeatureType_Copilot, ''no_such_feature'']
        seeded_database) = seeded_database
   \<and> snd (switchUserQuota_faulty (Some 4) 3 ''u1'' FeatureType_TeamWorkspace (Some ''upgrade'')
        None granted_database) = Inr ()
   \<and> switchUserQuota_faulty (Some 4) 3 ''u1'' FeatureType_TeamWorkspace (Some ''upgrade'')
        None granted_database =
      switchUserQuota 3 ''u1'' FeatureType_TeamWorkspace (Some ''upgrade'') None granted_database"
proof -
  have b: "map (\<lambda>r. (uf_featureId r, uf_activated r)) (userFeatures granted_database) =
     [(3, True), (1, True)]"
    by code_simp
  have mid: "map (\<lambda>r. (uf_featureId r, uf_activated r))
        (userFeatures (fst (switchUserQuota_body_faulty (Some 3) 3 ''u1'' FeatureType_TeamWorkspace
           (Some ''upgrade'') None granted_database))) = [(3, True), (1, False)]"
    by code_simp
  have s3: "snd (switchUserQuota_faulty (Some 3) 3 ''u1'' FeatureType_TeamWorkspace (Some ''upgrade'')
        None granted_database) = Inl StoreFailure"
    by code_simp
  from mutation_commits_or_rolls_back
         [of "Some 3" 3 "''u1''" FeatureType_TeamWorkspace "Some ''upgrade''" None granted_database]
       s3
  have r3: "fst (switchUserQuota_faulty (Some 3) 3 ''u1'' FeatureType_TeamWorkspace (Some ''upgrade'')
        None granted_database) = granted_database"
    by blast
  have l5: "map uf_featureId (userFeatures (fst (addUserFeatures_loop_faulty (Some 5) 0 1 ''u1''
        [FeatureType_Copilot, FeatureType_EarlyAccess] seeded_database))) = [1]"
    by code_simp
  have a5: "snd (addUserFeatures_faulty (Some 5) 1 ''u1''
        [FeatureType_Copilot, FeatureType_EarlyAccess] seeded_database) = Inl StoreFailure"
    by code_simp
  from mutation_commits_or_rolls_back
         [of "Some 5" 1 "''u1''" _ _ _ seeded_database
             "[FeatureType_Copilot, FeatureType_EarlyAccess]"]
       a5
  have r5: "fst (addUserFeatures_faulty (Some 5) 1 ''u1''
        [FeatureType_Copilot, FeatureType_EarlyAccess] seeded_database) = seeded_database"
    by blast
  have an: "snd (addUserFeatures_faulty None 1 ''u1'' [FeatureType_Copilot, ''no_such_feature'']
        seeded_database) = Inl (FeatureNotFound ''no_such_feature'')"
    by code_simp
  from mutation_commits_or_rolls_back
         [of None 1 "''u1''" _ _ _ seeded_database "[FeatureType_Copilot, ''no_such_feature'']"]
       an
  have rn: "fst (addUserFeatures_faulty None 1 ''u1'' [FeatureType_Copilot, ''no_such_feature'']
        seeded_database) = seeded_database"
    by blast
  have s4: "snd (switchUserQuota_faulty (Some 4) 3 ''u1'' FeatureType_TeamWorkspace (Some ''upgrade'')
        None granted_database) = Inr ()"
    by code_simp
  from mutation_commits_or_rolls_back
         [of "Some 4" 3 "''u1''" FeatureType_TeamWorkspace "Some ''upgrade''" None granted_database]
       s4
  have r4: "switchUserQuota_faulty (Some 4) 3 ''u1'' FeatureType_TeamWorkspace (Some ''upgrade'')
        None granted_database =
      switchUserQuota 3 ''u1'' FeatureType_TeamWorkspace (Some ''upgrade'') None granted_database"
    by blast
  from b mid s3 r3 l5 a5 r5 an rn s4 r4 show ?thesis by blast
qed

subsection \<open>Fulfilling an existing user\<close>

text \<open>
  C9. For an existing user and a payload that still has keys after the held keys are
  deleted, \<^verbatim>\<open>fulfillUser\<close> leaves the activation table as follows: every earlier record
  of the user, of whatever kind, is there with \<^verbatim>\<open>activated\<close> false (so an active quota
  record is deactivated as a feature grant is); the records of other users are as
  before; and the records added after them are active \<^verbatim>\<open>sign up\<close> grants of the user
  for Feature-kind definitions named in the group's feature list. The only active
  records of the user afterwards are among those added.
\<close>

theorem fulfillUser_deactivates_every_record:
  assumes "distinct (map f_id (features db))"
    and "findUserByEmail ev db email = Inr (Some user)"
    and "data_keys (delete_held_keys user data) \<noteq> 0"
  shows "\<exists>added.
           userFeatures (fst (fulfillUser ev now email g data db)) =
             map (\<lambda>r. if uf_userId r = u_id user then r\<lparr>uf_activated := False\<rparr> else r)
               (userFeatures db) @ added
         \<and> list_all (grantedRow db (u_id user) (group_features g)) added"
proof -
  let ?db1 = "user_update (u_id user) (delete_held_keys user data) db"
  let ?db2 = "userFeature_deactivateMany (\<lambda>r. uf_userId r = u_id user \<and> uf_activated r) ?db1"
  have f2: "features ?db2 = features db"
    by (simp add: user_update_def userFeature_deactivateMany_def)
  have u2: "userFeatures ?db2 =
              map (\<lambda>r. if uf_userId r = u_id user then r\<lparr>uf_activated := False\<rparr> else r)
                (userFeatures db)"
    by (auto simp: user_update_def userFeature_deactivateMany_def)
  have d2: "distinct (map f_id (features ?db2))" using assms(1) f2 by simp
  from addUserFeatures_appends [OF d2, of now "u_id user" "group_features g"]
  obtain added where
    a: "userFeatures (fst (addUserFeatures now (u_id user) (group_features g) ?db2)) =
          userFeatures ?db2 @ added"
       "list_all (grantedRow ?db2 (u_id user) (group_features g)) added" by blast
  have "grantedRow ?db2 (u_id user) (group_features g) = grantedRow db (u_id user) (group_features g)"
    using f2 by (simp add: grantedRow_def feature_is_def feature_of_def fun_eq_iff)
  with a(2) have g: "list_all (grantedRow db (u_id user) (group_features g)) added" by simp
  have "fst (fulfillUser ev now email g data db) =
          fst (addUserFeatures now (u_id user) (group_features g) ?db2)"
    using assms(2,3) by (simp add: fulfillUser_def Let_def split: prod.splits sum.splits)
  with a(1) u2 g show ?thesis by auto
qed

theorem fulfillUser_deactivates_every_record_witness:
  "distinct (map f_id (features member_database))
   \<and> map_sum id (map_option u_id) (findUserByEmail example_env member_database ''ann@example.org'') =
       Inr (Some ''u1'')
   \<and> map (\<lambda>r. (uf_userId r, uf_featureId r, uf_activated r)) (userFeatures member_database) =
       [(''u1'', 3, True), (''u1'', 1, True)]
   \<and> map (\<lambda>r. (uf_userId r, uf_featureId r, uf_activated r))
        (userFeatures (fst (fulfillUser example_env 9 ''ann@example.org'' Admin
           \<lparr>d_name = Some ''Ann'', d_email = None, d_password = None, d_emailVerifiedAt = None,
            d_avatarUrl = None, d_registered = Some True, d_createdAt = None\<rparr>
           member_database))) =
       [(''u1'', 3, False), (''u1'', 1, False), (''u1'', 4, True), (''u1'', 5, True)]
   \<and> (\<exists>added.
         userFeatures (fst (fulfillUser example_env 9 ''ann@example.org'' Admin
           \<lparr>d_name = Some ''Ann'', d_email = None, d_password = None, d_emailVerifiedAt = None,
            d_avatarUrl = None, d_registered = Some True, d_createdAt = None\<rparr>
           member_database)) =
           map (\<lambda>r. if uf_userId r = ''u1'' then r\<lparr>uf_activated := False\<rparr> else r)
             (userFeatures member_database) @ added
       \<and> list_all (grantedRow member_database ''u1'' (group_features Admin)) added)"
proof -
  let ?user = "\<lparr>u_id = ''u1'', u_name = ''ann'', u_email = ''ann@example.org'', u_password = None,
                u_emailVerifiedAt = None, u_avatarUrl = None, u_registered = True,
                u_createdAt = 0\<rparr>"
  let ?data = "\<lparr>d_name = Some ''Ann'', d_email = None, d_password = None,
                d_emailVerifiedAt = None, d_avatarUrl = None, d_registered = Some True,
                d_createdAt = None\<rparr>"
  have d: "distinct (map f_id (features member_database))"
    by code_simp
  have u: "findUserByEmail example_env member_database ''ann@example.org'' = Inr (Some ?user)"
    by code_simp
  have k: "data_keys (delete_held_keys ?user ?data) \<noteq> 0"
    by code_simp
  have b: "map (\<lambda>r. (uf_userId r, uf_featureId r, uf_activated r)) (userFeatures member_database) =
       [(''u1'', 3, True), (''u1'', 1, True)]"
    by code_simp
  have a: "map (\<lambda>r. (uf_userId r, uf_featureId r, uf_activated r))
        (userFeatures (fst (fulfillUser example_env 9 ''ann@example.org'' Admin ?data
           member_database))) =
       [(''u1'', 3, False), (''u1'', 1, False), (''u1'', 4, True), (''u1'', 5, True)]"
    by code_simp
  from fulfillUser_deactivates_every_record [OF d u k, of 9 Admin]
  have t: "\<exists>added.
         userFeatures (fst (fulfillUser example_env 9 ''ann@example.org'' Admin ?data
           member_database)) =
           map (\<lambda>r. if uf_userId r = ''u1'' then r\<lparr>uf_activated := False\<rparr> else r)
             (userFeatures member_database) @ added
       \<and> list_all (grantedRow member_database ''u1'' (group_features Admin)) added"
    by simp
  from u have u': "map_sum id (map_option u_id)
       (findUserByEmail example_env member_database ''ann@example.org'') = Inr (Some ''u1'')"
    by simp
  from d u' b a t show ?thesis by blast
qed

subsection \<open>Feature grants are outside a quota switch\<close>

text \<open>
  C10. A call of \<^verbatim>\<open>switchUserQuota\<close>, successful or failed, keeps every earlier activation
  record at its place; a record whose definition has kind Feature is the same
  afterwards; a record that differs afterwards is a Quota-kind record of the account,
  and only its \<^verbatim>\<open>activated\<close> flag was cleared. The Feature-kind records after the call
  are those before it.
\<close>

theorem switchUserQuota_keeps_feature_records:
  assumes "distinct (map f_id (features db))"
  shows "(\<forall>i<length (userFeatures db).
            i < length (userFeatures (fst (switchUserQuota now u q reason exp db)))
          \<and> (feature_is (\<lambda>f. f_type f = Feature) db (userFeatures db ! i) \<longrightarrow>
               userFeatures (fst (switchUserQuota now u q reason exp db)) ! i = userFeatures db ! i)
          \<and> (userFeatures (fst (switchUserQuota now u q reason exp db)) ! i \<noteq> userFeatures db ! i \<longrightarrow>
               uf_userId (userFeatures db ! i) = u
             \<and> feature_is (\<lambda>f. f_type f = Quota) db (userFeatures db ! i)
             \<and> userFeatures (fst (switchUserQuota now u q reason exp db)) ! i =
                 (userFeatures db ! i)\<lparr>uf_activated := False\<rparr>))
       \<and> filter (feature_is (\<lambda>f. f_type f = Feature) db)
            (userFeatures (fst (switchUserQuota now u q reason exp db))) =
         filter (feature_is (\<lambda>f. f_type f = Feature) db) (userFeatures db)"
proof -
  let ?db' = "fst (switchUserQuota now u q reason exp db)"
  from switch_effect_step [OF assms, of u now q reason exp]
  have "?db' = db \<or>
      (userFeatures ?db' \<noteq> [] \<and>
       butlast (userFeatures ?db') = map (deactivateQuota u db) (userFeatures db) \<and>
       feature_is (\<lambda>f. f_type f = Quota) db (last (userFeatures ?db')))"
    by (auto simp: switch_effect_def)
  then show ?thesis
  proof
    assume "?db' = db"
    then show ?thesis by simp
  next
    assume e: "userFeatures ?db' \<noteq> [] \<and>
       butlast (userFeatures ?db') = map (deactivateQuota u db) (userFeatures db) \<and>
       feature_is (\<lambda>f. f_type f = Quota) db (last (userFeatures ?db'))"
    then have ufs: "userFeatures ?db' =
        map (deactivateQuota u db) (userFeatures db) @ [last (userFeatures ?db')]"
      by (metis append_butlast_last_id)
    have newq: "\<not> feature_is (\<lambda>f. f_type f = Feature) db (last (userFeatures ?db'))"
      using e feature_kind_exclusive by blast
    have keep: "filter (feature_is (\<lambda>f. f_type f = Feature) db)
                  (map (deactivateQuota u db) rs) =
                filter (feature_is (\<lambda>f. f_type f = Feature) db) rs" for rs
      by (induction rs) (auto simp: deactivateQuota_def dest: feature_kind_exclusive)
    have pos: "\<And>i. i < length (userFeatures db) \<Longrightarrow>
                 userFeatures ?db' ! i = deactivateQuota u db (userFeatures db ! i)"
      by (subst ufs) (simp add: nth_append)
    have len: "length (userFeatures ?db') = Suc (length (userFeatures db))"
      by (subst ufs) simp
    show ?thesis
    proof (intro conjI allI impI)
      fix i assume "i < length (userFeatures db)"
      then show "i < length (userFeatures ?db')" using len by simp
    next
      fix i assume "i < length (userFeatures db)"
        and "feature_is (\<lambda>f. f_type f = Feature) db (userFeatures db ! i)"
      then show "userFeatures ?db' ! i = userFeatures db ! i"
        by (auto simp: pos deactivateQuota_def dest: feature_kind_exclusive)
    next
      fix i assume i: "i < length (userFeatures db)"
        and ne: "userFeatures ?db' ! i \<noteq> userFeatures db ! i"
      from ne show "uf_userId (userFeatures db ! i) = u"
        by (simp add: pos [OF i] deactivateQuota_def split: if_splits)
      from ne show "feature_is (\<lambda>f. f_type f = Quota) db (userFeatures db ! i)"
        by (simp add: pos [OF i] deactivateQuota_def split: if_splits)
      from ne show "userFeatures ?db' ! i = (userFeatures db ! i)\<lparr>uf_activated := False\<rparr>"
        by (simp add: pos [OF i] deactivateQuota_def split: if_splits)
    next
      show "filter (feature_is (\<lambda>f. f_type f = Feature) db) (userFeatures ?db') =
            filter (feature_is (\<lambda>f. f_type f = Feature) db) (userFeatures db)"
        by (subst ufs) (simp add: keep newq)
    qed
  qed
qed

theorem switchUserQuota_keeps_feature_records_witness:
  "distinct (map f_id (features granted_database))
   \<and> filter (feature_is (\<lambda>f. f_type f = Feature) granted_database)
        (userFeatures (fst (switchUserQuota 3 ''u1'' FeatureType_TeamWorkspace (Some ''upgrade'')
           None granted_database))) =
      filter (feature_is (\<lambda>f. f_type f = Feature) granted_database)
        (userFeatures granted_database)
   \<and> map (\<lambda>r. (uf_featureId r, uf_activated r)) (userFeatures granted_database) =
        [(3, True), (1, True)]
   \<and> map (\<lambda>r. (uf_featureId r, uf_activated r))
        (userFeatures (fst (switchUserQuota 3 ''u1'' FeatureType_TeamWorkspace (Some ''upgrade'')
           None granted_database))) = [(3, True), (1, False), (2, True)]"
proof -
  have d: "distinct (map f_id (features granted_database))"
    by code_simp
  have b: "map (\<lambda>r. (uf_featureId r, uf_activated r)) (userFeatures granted_database) =
        [(3, True), (1, True)]"
    by code_simp
  have a: "map (\<lambda>r. (uf_featureId r, uf_activated r))
        (userFeatures (fst (switchUserQuota 3 ''u1'' FeatureType_TeamWorkspace (Some ''upgrade'')
           None granted_database))) = [(3, True), (1, False), (2, True)]"
    by code_simp
  from switchUserQuota_keeps_feature_records [OF d, of 3 "''u1''" FeatureType_TeamWorkspace
         "Some ''upgrade''" None] d b a
  show ?thesis by blast
qed

end
